theory Spec2Isabelle
  imports Complex_Main
begin

section \<open>JavaScript numbers\<close>

text \<open>
  A JavaScript \<^verbatim>\<open>number\<close> is an IEEE 754 double: a finite value, one of the two
  infinities, or NaN. \<open>Fin a\<close> is the finite double of value \<open>a\<close>. The sign of zero
  is not modelled: a template literal prints \<^verbatim>\<open>-0\<close> as \<^verbatim>\<open>0\<close>, and the program divides
  by no zero.
\<close>

datatype jsnum = Fin real | PosInf | NegInf | NaN

fun jneg :: "jsnum \<Rightarrow> jsnum" where
  "jneg (Fin a) = Fin (- a)"
| "jneg PosInf = NegInf"
| "jneg NegInf = PosInf"
| "jneg NaN = NaN"

text \<open>
  Rounding of an exact result to the nearest double, a tie to the even significand. A
  positive \<open>x\<close> lies in the binade of exponent \<open>binade x\<close> (the subnormal numbers share
  the exponent \<open>-1022\<close>), where the doubles are the multiples of \<open>ulp x\<close>; a result of
  \<open>2 ^ 1024\<close> or more is an overflow to \<^verbatim>\<open>Infinity\<close>.
\<close>

definition binade :: "real \<Rightarrow> int" where
  "binade x = max \<lfloor>log 2 x\<rfloor> (- 1022)"

definition ulp :: "real \<Rightarrow> real" where
  "ulp x = 2 powr (of_int (binade x) - 52)"

definition rne :: "real \<Rightarrow> int" where
  "rne q = (let f = \<lfloor>q\<rfloor>; d = q - of_int f in
            if d < 1 / 2 then f else if 1 / 2 < d then f + 1
            else if even f then f else f + 1)"

definition round_pos :: "real \<Rightarrow> jsnum" where
  "round_pos x = (let y = of_int (rne (x / ulp x)) * ulp x in
                  if 2 ^ 1024 \<le> y then PosInf else Fin y)"

definition round_double :: "real \<Rightarrow> jsnum" where
  "round_double x = (if x = 0 then Fin 0 else if 0 < x then round_pos x
                     else jneg (round_pos (- x)))"

fun jsgn :: "jsnum \<Rightarrow> real" where
  "jsgn (Fin a) = sgn a"
| "jsgn PosInf = 1"
| "jsgn NegInf = - 1"
| "jsgn NaN = 0"

definition inf_of_sign :: "real \<Rightarrow> jsnum" where
  "inf_of_sign s = (if s = 0 then NaN else if 0 < s then PosInf else NegInf)"

text \<open>
  The operators \<^verbatim>\<open>+\<close>, \<^verbatim>\<open>*\<close> and \<^verbatim>\<open>/\<close>: the exact result of two finite operands is
  rounded; \<^verbatim>\<open>Infinity * 0\<close>, \<^verbatim>\<open>Infinity - Infinity\<close> and \<^verbatim>\<open>Infinity / Infinity\<close> are
  NaN, and NaN is absorbing.
\<close>

fun jadd :: "jsnum \<Rightarrow> jsnum \<Rightarrow> jsnum" where
  "jadd NaN y = NaN"
| "jadd x NaN = NaN"
| "jadd (Fin a) (Fin b) = round_double (a + b)"
| "jadd PosInf NegInf = NaN"
| "jadd NegInf PosInf = NaN"
| "jadd PosInf y = PosInf"
| "jadd NegInf y = NegInf"
| "jadd x PosInf = PosInf"
| "jadd x NegInf = NegInf"

fun jmul :: "jsnum \<Rightarrow> jsnum \<Rightarrow> jsnum" where
  "jmul NaN y = NaN"
| "jmul x NaN = NaN"
| "jmul (Fin a) (Fin b) = round_double (a * b)"
| "jmul x y = inf_of_sign (jsgn x * jsgn y)"

text \<open>
  Division. The divisors of the program are the constants 2, 3, 12, 16, 24 and 1000 and a
  radius that has passed the truthiness test, so a zero divisor never occurs there; it is
  given the value of a division by \<^verbatim>\<open>+0\<close>.
\<close>

fun jdiv :: "jsnum \<Rightarrow> jsnum \<Rightarrow> jsnum" where
  "jdiv NaN y = NaN"
| "jdiv x NaN = NaN"
| "jdiv (Fin a) (Fin b) = (if b = 0 then inf_of_sign a else round_double (a / b))"
| "jdiv (Fin a) y = Fin 0"
| "jdiv x (Fin b) = inf_of_sign (jsgn x * (if b = 0 then 1 else sgn b))"
| "jdiv x y = NaN"

text \<open>Truthiness of a number: everything but \<^verbatim>\<open>0\<close> and \<^verbatim>\<open>NaN\<close>.\<close>

fun truthy :: "jsnum \<Rightarrow> bool" where
  "truthy (Fin a) = (a \<noteq> 0)"
| "truthy PosInf = True"
| "truthy NegInf = True"
| "truthy NaN = False"

text \<open>\<^verbatim>\<open>a || b\<close> on numbers, and on a property that may be \<^verbatim>\<open>undefined\<close>.\<close>

definition lor :: "jsnum \<Rightarrow> jsnum \<Rightarrow> jsnum" where
  "lor a b = (if truthy a then a else b)"

fun dim_or :: "jsnum option \<Rightarrow> jsnum \<Rightarrow> jsnum" where
  "dim_or None d = d"
| "dim_or (Some a) d = lor a d"

text \<open>
  The object \<^verbatim>\<open>Math\<close>. \<^verbatim>\<open>Math.PI\<close> is the double nearest to \<open>\<pi>\<close>,
  \<open>884279719003555 / 2 ^ 48\<close>. The language leaves the values of \<^verbatim>\<open>Math.cos\<close>,
  \<^verbatim>\<open>Math.sin\<close> and \<^verbatim>\<open>Math.pow\<close> to the implementation, so the program is modelled for
  any three such functions. \<^verbatim>\<open>Math.round\<close> rounds to the nearest integer, a tie towards
  \<^verbatim>\<open>+Infinity\<close>, and \<^verbatim>\<open>Math.max\<close> is NaN as soon as one argument is; both are exact.
\<close>

definition math_pi :: jsnum where
  "math_pi = Fin (884279719003555 / 2 ^ 48)"

record Math =
  Math_cos :: "jsnum \<Rightarrow> jsnum"
  Math_sin :: "jsnum \<Rightarrow> jsnum"
  Math_pow :: "jsnum \<Rightarrow> jsnum \<Rightarrow> jsnum"



section \<open>Data model\<close>

text \<open>
  The interfaces \<^verbatim>\<open>ShapeConfig\<close> and \<^verbatim>\<open>PrintJob\<close>. An optional property is an
  \<open>option\<close>. Two properties are renamed, their names being taken: \<^verbatim>\<open>text\<close> is
  \<open>text_dim\<close> and \<^verbatim>\<open>id\<close> is \<open>job_id\<close>.
\<close>

datatype shape_type = Cube | Cylinder | Sphere | Cone | Torus | Text | Custom

datatype units_mm = MM

record dimensions_rec =
  width :: "jsnum option"
  height :: "jsnum option"
  depth :: "jsnum option"
  radius :: "jsnum option"
  text_dim :: "string option"

record ShapeConfig =
  type :: shape_type
  dimensions :: dimensions_rec
  units :: units_mm

section \<open>generateSTL\<close>

type_synonym vec = "jsnum \<times> jsnum \<times> jsnum"

text \<open>
  The lines of the ASCII STL text. The printing of a number inside a line is not
  modelled: a \<^verbatim>\<open>facet normal\<close> or \<^verbatim>\<open>vertex\<close> line carries its three numbers.
\<close>

datatype stl_line =
    SolidModel
  | FacetNormal vec
  | OuterLoop
  | Vertex vec
  | EndLoop
  | EndFacet
  | EmptyLine
  | EndSolidModel

text \<open>\<^verbatim>\<open>addTriangle\<close> pushes seven lines; the model returns them.\<close>

definition addTriangle :: "vec \<Rightarrow> vec \<Rightarrow> vec \<Rightarrow> vec \<Rightarrow> stl_line list" where
  "addTriangle v1 v2 v3 normal =
     [FacetNormal normal, OuterLoop, Vertex v1, Vertex v2, Vertex v3, EndLoop, EndFacet]"

text \<open>The angle \<^verbatim>\<open>(i / n) * Math.PI * 2\<close> and the sphere's \<^verbatim>\<open>(i / n) * Math.PI\<close>.\<close>

definition turn :: "nat \<Rightarrow> nat \<Rightarrow> jsnum" where
  "turn i n = jmul (jmul (jdiv (Fin (real i)) (Fin (real n))) math_pi) (Fin 2)"

definition half_turn :: "nat \<Rightarrow> nat \<Rightarrow> jsnum" where
  "half_turn i n = jmul (jdiv (Fin (real i)) (Fin (real n))) math_pi"

definition cube_triangles :: "jsnum \<Rightarrow> jsnum \<Rightarrow> jsnum \<Rightarrow> stl_line list" where
  "cube_triangles w h d =
    (let mw = jneg w; mh = jneg h; md = jneg d;
         z = Fin 0; one = Fin 1; mone = Fin (- 1) in
       addTriangle (mw, mh, md) (w, mh, md) (w, mh, d) (z, mone, z)
     @ addTriangle (mw, mh, md) (w, mh, d) (mw, mh, d) (z, mone, z)
     @ addTriangle (mw, h, md) (w, h, d) (w, h, md) (z, one, z)
     @ addTriangle (mw, h, md) (mw, h, d) (w, h, d) (z, one, z)
     @ addTriangle (mw, mh, d) (w, mh, d) (w, h, d) (z, z, one)
     @ addTriangle (mw, mh, d) (w, h, d) (mw, h, d) (z, z, one)
     @ addTriangle (mw, mh, md) (w, h, md) (w, mh, md) (z, z, mone)
     @ addTriangle (mw, mh, md) (mw, h, md) (w, h, md) (z, z, mone)
     @ addTriangle (w, mh, md) (w, h, md) (w, h, d) (one, z, z)
     @ addTriangle (w, mh, md) (w, h, d) (w, mh, d) (one, z, z)
     @ addTriangle (mw, mh, md) (mw, h, d) (mw, h, md) (mone, z, z)
     @ addTriangle (mw, mh, md) (mw, mh, d) (mw, h, d) (mone, z, z))"

definition cylinder_segment :: "Math \<Rightarrow> jsnum \<Rightarrow> jsnum \<Rightarrow> nat \<Rightarrow> stl_line list" where
  "cylinder_segment m r h i =
    (let segments = 24;
         a1 = turn i segments; a2 = turn (i + 1) segments;
         x1 = jmul (Math_cos m a1) r; z1 = jmul (Math_sin m a1) r;
         x2 = jmul (Math_cos m a2) r; z2 = jmul (Math_sin m a2) r;
         mh = jneg h; z = Fin 0 in
       addTriangle (x1, mh, z1) (x2, mh, z2) (x2, h, z2) (Math_cos m a1, z, Math_sin m a1)
     @ addTriangle (x1, mh, z1) (x2, h, z2) (x1, h, z1) (Math_cos m a1, z, Math_sin m a1)
     @ addTriangle (z, h, z) (x1, h, z1) (x2, h, z2) (z, Fin 1, z)
     @ addTriangle (z, mh, z) (x2, mh, z2) (x1, mh, z1) (z, Fin (- 1), z))"

definition cylinder_triangles :: "Math \<Rightarrow> jsnum \<Rightarrow> jsnum \<Rightarrow> stl_line list" where
  "cylinder_triangles m r h = concat (map (cylinder_segment m r h) [0..<24])"

definition sphere_cell :: "Math \<Rightarrow> jsnum \<Rightarrow> nat \<Rightarrow> nat \<Rightarrow> stl_line list" where
  "sphere_cell m r i j =
    (let segments = 16; rings = 12;
         phi1 = half_turn i rings; phi2 = half_turn (i + 1) rings;
         theta1 = turn j segments; theta2 = turn (j + 1) segments;
         p1 = (jmul (jmul (Math_sin m phi1) (Math_cos m theta1)) r, jmul (Math_cos m phi1) r,
               jmul (jmul (Math_sin m phi1) (Math_sin m theta1)) r);
         p2 = (jmul (jmul (Math_sin m phi1) (Math_cos m theta2)) r, jmul (Math_cos m phi1) r,
               jmul (jmul (Math_sin m phi1) (Math_sin m theta2)) r);
         p3 = (jmul (jmul (Math_sin m phi2) (Math_cos m theta2)) r, jmul (Math_cos m phi2) r,
               jmul (jmul (Math_sin m phi2) (Math_sin m theta2)) r);
         p4 = (jmul (jmul (Math_sin m phi2) (Math_cos m theta1)) r, jmul (Math_cos m phi2) r,
               jmul (jmul (Math_sin m phi2) (Math_sin m theta1)) r);
         n1 = (jdiv (fst p1) r, jdiv (fst (snd p1)) r, jdiv (snd (snd p1)) r) in
       (if 0 < i then addTriangle p1 p2 p3 n1 else [])
     @ (if i < rings - 1 then addTriangle p1 p3 p4 n1 else []))"

definition sphere_triangles :: "Math \<Rightarrow> jsnum \<Rightarrow> stl_line list" where
  "sphere_triangles m r =
     concat (map (\<lambda>i. concat (map (sphere_cell m r i) [0..<16])) [0..<12])"

definition cone_segment :: "Math \<Rightarrow> jsnum \<Rightarrow> jsnum \<Rightarrow> nat \<Rightarrow> stl_line list" where
  "cone_segment m r h i =
    (let segments = 24;
         a1 = turn i segments; a2 = turn (i + 1) segments;
         x1 = jmul (Math_cos m a1) r; z1 = jmul (Math_sin m a1) r;
         x2 = jmul (Math_cos m a2) r; z2 = jmul (Math_sin m a2) r;
         z = Fin 0 in
       addTriangle (x1, z, z1) (x2, z, z2) (z, h, z) (Math_cos m a1, Fin (1 / 2), Math_sin m a1)
     @ addTriangle (z, z, z) (x2, z, z2) (x1, z, z1) (z, Fin (- 1), z))"

definition cone_triangles :: "Math \<Rightarrow> jsnum \<Rightarrow> jsnum \<Rightarrow> stl_line list" where
  "cone_triangles m r h = concat (map (cone_segment m r h) [0..<24])"

text \<open>The torus branch's local function \<^verbatim>\<open>getPoint\<close>, closed over \<^verbatim>\<open>R\<close> and \<^verbatim>\<open>r\<close>.\<close>

definition getPoint :: "Math \<Rightarrow> jsnum \<Rightarrow> jsnum \<Rightarrow> jsnum \<Rightarrow> jsnum \<Rightarrow> vec" where
  "getPoint m R r u v =
     (jmul (jadd R (jmul r (Math_cos m v))) (Math_cos m u),
      jmul r (Math_sin m v),
      jmul (jadd R (jmul r (Math_cos m v))) (Math_sin m u))"

definition torus_cell :: "Math \<Rightarrow> jsnum \<Rightarrow> jsnum \<Rightarrow> nat \<Rightarrow> nat \<Rightarrow> stl_line list" where
  "torus_cell m R r i j =
    (let segments = 24; rings = 16;
         u1 = turn i rings; u2 = turn (i + 1) rings;
         v1 = turn j segments; v2 = turn (j + 1) segments;
         p1 = getPoint m R r u1 v1;
         p2 = getPoint m R r u2 v1;
         p3 = getPoint m R r u2 v2;
         p4 = getPoint m R r u1 v2 in
       addTriangle p1 p2 p3 (Math_cos m u1, Fin 0, Math_sin m u1)
     @ addTriangle p1 p3 p4 (Math_cos m u1, Fin 0, Math_sin m u1))"

definition torus_triangles :: "Math \<Rightarrow> jsnum \<Rightarrow> jsnum \<Rightarrow> stl_line list" where
  "torus_triangles m R r =
     concat (map (\<lambda>i. concat (map (torus_cell m R r i) [0..<24])) [0..<16])"

text \<open>
  The array \<^verbatim>\<open>triangles\<close> at the end of \<^verbatim>\<open>generateSTL\<close>: the chain of
  \<^verbatim>\<open>if\<close>/\<^verbatim>\<open>else if\<close> on the type has no final \<^verbatim>\<open>else\<close>.
\<close>

definition triangles :: "Math \<Rightarrow> ShapeConfig \<Rightarrow> stl_line list" where
  "triangles m shape =
    (let dims = dimensions shape in
     if type shape = Cube then
       cube_triangles (jdiv (dim_or (width dims) (Fin 50)) (Fin 2))
                      (jdiv (dim_or (height dims) (Fin 50)) (Fin 2))
                      (jdiv (dim_or (depth dims) (Fin 50)) (Fin 2))
     else if type shape = Cylinder then
       cylinder_triangles m (dim_or (radius dims) (Fin 25))
                          (jdiv (dim_or (height dims) (Fin 50)) (Fin 2))
     else if type shape = Sphere then
       sphere_triangles m (dim_or (radius dims) (Fin 25))
     else if type shape = Cone then
       cone_triangles m (dim_or (radius dims) (Fin 25)) (dim_or (height dims) (Fin 50))
     else if type shape = Torus then
       torus_triangles m (dim_or (radius dims) (Fin 30))
                       (jdiv (dim_or (width dims) (Fin 10)) (Fin 2))
     else [])"

text \<open>
  \<^verbatim>\<open>`solid model\n${triangles.join('\n')}\nendsolid model`\<close>, as its lines: the join
  of an empty array is the empty string, which leaves one empty line between the two
  framing lines.
\<close>

definition join_lines :: "stl_line list \<Rightarrow> stl_line list" where
  "join_lines ls = (if ls = [] then [EmptyLine] else ls)"

definition generateSTL :: "Math \<Rightarrow> ShapeConfig \<Rightarrow> stl_line list" where
  "generateSTL m shape = SolidModel # join_lines (triangles m shape) @ [EndSolidModel]"

text \<open>The number of triangles of a mesh text: its \<^verbatim>\<open>facet normal\<close> lines.\<close>

fun is_facet :: "stl_line \<Rightarrow> bool" where
  "is_facet (FacetNormal n) = True"
| "is_facet l = False"

definition triangle_count :: "stl_line list \<Rightarrow> nat" where
  "triangle_count ls = length (filter is_facet ls)"

section \<open>parsePrompt\<close>

text \<open>
  A string is a list of code units below 256 (Latin-1). The three regular expressions of
  \<^verbatim>\<open>parsePrompt\<close> use literals, the classes \<^verbatim>\<open>\d\<close> and \<^verbatim>\<open>\s\<close> under \<^verbatim>\<open>+\<close> and
  \<^verbatim>\<open>*\<close>, alternation, optional groups and capture groups. The matcher below is the
  backtracking one of the language: it lists the ways a pattern can match at the head of
  the input, in the order of preference (greedy repetition, alternatives from left to
  right, an optional group tried before it is skipped), each with the rest of the input
  and the captures.
\<close>

datatype cclass = Digit | Space

datatype regex =
    Lit string
  | Plus cclass
  | Star cclass
  | Seq regex regex
  | Alt regex regex
  | Opt regex
  | Group nat regex

type_synonym captures = "nat \<rightharpoonup> string"

text \<open>
  \<^verbatim>\<open>\d\<close> is a decimal digit. \<^verbatim>\<open>\s\<close> is a white space or a line terminator: below 256
  these are the tab, the line feed, the vertical tab, the form feed, the carriage return,
  the space and the no-break space.
\<close>

fun in_class :: "cclass \<Rightarrow> char \<Rightarrow> bool" where
  "in_class Digit c = (c \<in> set ''0123456789'')"
| "in_class Space c =
     (c \<in> set [CHR 0x09, CHR 0x0A, CHR 0x0B, CHR 0x0C, CHR 0x0D, CHR 0x20, CHR 0xA0])"

definition starts_with :: "string \<Rightarrow> string \<Rightarrow> bool" where
  "starts_with s w = (take (length w) s = w)"

fun ms :: "regex \<Rightarrow> string \<times> captures \<Rightarrow> (string \<times> captures) list" where
  "ms (Lit w) (s, c) = (if starts_with s w then [(drop (length w) s, c)] else [])"
| "ms (Plus k) (s, c) =
     map (\<lambda>n. (drop n s, c)) (rev [1..<Suc (length (takeWhile (in_class k) s))])"
| "ms (Star k) (s, c) =
     map (\<lambda>n. (drop n s, c)) (rev [0..<Suc (length (takeWhile (in_class k) s))])"
| "ms (Seq a b) st = concat (map (ms b) (ms a st))"
| "ms (Alt a b) st = ms a st @ ms b st"
| "ms (Opt a) st = ms a st @ [st]"
| "ms (Group g a) (s, c) =
     map (\<lambda>(s', c'). (s', c'(g \<mapsto> take (length s - length s') s))) (ms a (s, c))"

text \<open>\<^verbatim>\<open>str.match(re)\<close> without the global flag: the first position with a match.\<close>

fun match_re :: "regex \<Rightarrow> string \<Rightarrow> captures option" where
  "match_re re [] = (case ms re ([], Map.empty) of [] \<Rightarrow> None | st # _ \<Rightarrow> Some (snd st))"
| "match_re re (x # xs) =
     (case ms re (x # xs, Map.empty) of [] \<Rightarrow> match_re re xs | st # _ \<Rightarrow> Some (snd st))"

definition unit_re :: regex where
  "unit_re = Opt (Alt (Lit ''mm'') (Lit ''millimeter''))"

definition sep_re :: regex where
  "sep_re = Alt (Seq (Star Space) (Seq (Lit ''x'') (Star Space)))
                (Seq (Star Space) (Seq (Lit ''by'') (Star Space)))"

definition dim_re :: regex where
  "dim_re =
     Seq (Group 1 (Plus Digit)) (Seq (Star Space) (Seq unit_re (Seq sep_re
       (Seq (Group 2 (Plus Digit))
         (Opt (Seq (Star Space) (Seq unit_re (Seq sep_re (Group 3 (Plus Digit))))))))))"

definition radius_re :: regex where
  "radius_re =
     Seq (Group 1 (Plus Digit)) (Seq (Star Space) (Seq unit_re
       (Seq (Star Space) (Lit ''radius''))))"

definition size_re :: regex where
  "size_re =
     Seq (Group 1 (Plus Digit)) (Seq (Star Space) (Alt (Lit ''mm'') (Lit ''millimeter'')))"

text \<open>
  \<^verbatim>\<open>parseInt\<close> on a captured group: a run of decimal digits here (sign, leading blanks
  and radix prefixes do not occur), read as the double nearest to its value;
  \<^verbatim>\<open>parseInt(undefined)\<close> is NaN.
\<close>

definition digit_val :: "char \<Rightarrow> int" where
  "digit_val c = of_char c - 48"

definition decimal :: "string \<Rightarrow> int" where
  "decimal ds = foldl (\<lambda>n c. 10 * n + digit_val c) 0 ds"

definition parseInt :: "string option \<Rightarrow> jsnum" where
  "parseInt g =
     (case g of
        None \<Rightarrow> NaN
      | Some s \<Rightarrow>
          (let ds = takeWhile (in_class Digit) s in
           if ds = [] then NaN else round_double (of_int (decimal ds))))"

text \<open>
  \<^verbatim>\<open>toLowerCase\<close> below 256: the letters \<open>A\<close> to \<open>Z\<close> and the accented capitals from
  \<open>0xC0\<close> to \<open>0xDE\<close>, the multiplication sign \<open>0xD7\<close> apart, move up by 32.
\<close>

definition lower_char :: "char \<Rightarrow> char" where
  "lower_char c =
     (let n = (of_char c :: nat) in
      if (65 \<le> n \<and> n \<le> 90) \<or> (192 \<le> n \<and> n \<le> 222 \<and> n \<noteq> 215) then char_of (n + 32)
      else c)"

definition toLowerCase :: "string \<Rightarrow> string" where
  "toLowerCase s = map lower_char s"

fun str_includes :: "string \<Rightarrow> string \<Rightarrow> bool" where
  "str_includes [] w = (w = [])"
| "str_includes (x # xs) w = (starts_with (x # xs) w \<or> str_includes xs w)"

text \<open>The four variables \<^verbatim>\<open>width, height, depth, radius\<close> after the three tests.\<close>

definition parse_sizes :: "string \<Rightarrow> jsnum \<times> jsnum \<times> jsnum \<times> jsnum" where
  "parse_sizes lower =
    (case match_re dim_re lower of
       Some m \<Rightarrow>
         (let width = parseInt (m 1); height = parseInt (m 2);
              depth = (case m 3 of None \<Rightarrow> width
                       | Some g \<Rightarrow> if g = [] then width else parseInt (Some g))
          in (width, height, depth, Fin 25))
     | None \<Rightarrow>
    (case match_re radius_re lower of
       Some m \<Rightarrow>
         (let radius = parseInt (m 1); w = jmul radius (Fin 2) in (w, w, w, radius))
     | None \<Rightarrow>
    (case match_re size_re lower of
       Some m \<Rightarrow>
         (let w = parseInt (m 1) in (w, w, w, jdiv w (Fin 2)))
     | None \<Rightarrow> (Fin 50, Fin 50, Fin 50, Fin 25))))"

definition no_dims :: dimensions_rec where
  "no_dims = \<lparr>width = None, height = None, depth = None, radius = None, text_dim = None\<rparr>"

definition parsePrompt :: "string \<Rightarrow> ShapeConfig" where
  "parsePrompt prompt =
    (let lower = toLowerCase prompt in
     case parse_sizes lower of (w, h, d, r) \<Rightarrow>
     if str_includes lower ''sphere'' \<or> str_includes lower ''ball'' \<or> str_includes lower ''orb'' then
       \<lparr>type = Sphere, dimensions = no_dims\<lparr>radius := Some r\<rparr>, units = MM\<rparr>
     else if str_includes lower ''cylinder'' \<or> str_includes lower ''tube'' \<or> str_includes lower ''pipe''
             \<or> str_includes lower ''rod'' then
       \<lparr>type = Cylinder,
        dimensions = no_dims\<lparr>radius := Some (lor r (jdiv w (Fin 2))), height := Some h\<rparr>,
        units = MM\<rparr>
     else if str_includes lower ''cone'' \<or> str_includes lower ''pyramid'' then
       \<lparr>type = Cone,
        dimensions = no_dims\<lparr>radius := Some (lor r (jdiv w (Fin 2))), height := Some h\<rparr>,
        units = MM\<rparr>
     else if str_includes lower ''donut'' \<or> str_includes lower ''torus'' \<or> str_includes lower ''ring'' then
       \<lparr>type = Torus,
        dimensions = no_dims\<lparr>radius := Some (lor r (Fin 30)), width := Some (Fin 10)\<rparr>,
        units = MM\<rparr>
     else if str_includes lower ''cube'' \<or> str_includes lower ''box'' \<or> str_includes lower ''block''
             \<or> str_includes lower ''square'' then
       \<lparr>type = Cube,
        dimensions = no_dims\<lparr>width := Some w, height := Some h, depth := Some d\<rparr>,
        units = MM\<rparr>
     else
       \<lparr>type = Cube,
        dimensions = no_dims\<lparr>width := Some w, height := Some h, depth := Some d\<rparr>,
        units = MM\<rparr>)"

section \<open>Request bodies\<close>

text \<open>
  A handler that reads its body starts with \<^verbatim>\<open>await c.req.json()\<close> and takes one
  property out of the result. A body that is no JSON text, or is \<^verbatim>\<open>null\<close>, makes this
  throw: the request ends with the status 500 and nothing is written. Otherwise the
  property is there or not. A prompt that is absent or no string makes
  \<^verbatim>\<open>prompt.toLowerCase()\<close> throw in \<^verbatim>\<open>parsePrompt\<close>, before anything is written.
\<close>

datatype 'a body = Unparsable | Parsed "'a option"

datatype error = OrderNotFound | Thrown

section \<open>The preview computation\<close>





section \<open>Jobs, the store and the order handlers\<close>

datatype status = pending_payment | paid | printing | completed | failed

record PrintJob =
  job_id :: string
  prompt :: string
  shape :: ShapeConfig
  stlData :: "stl_line list"
  status :: status
  paymentTxId :: "string option"
  createdAt :: string
  paidAt :: "string option"
  printedAt :: "string option"

text \<open>
  The KV namespace \<^verbatim>\<open>PRINT_QUEUE\<close>. The keys \<^verbatim>\<open>job:<id>\<close> hold a job document
  and the options of the \<^verbatim>\<open>put\<close> that wrote it (a \<^verbatim>\<open>put\<close> without
  \<^verbatim>\<open>expirationTtl\<close> stores a value that does not expire); the key \<^verbatim>\<open>queue\<close>,
  which no \<^verbatim>\<open>job:<id>\<close> equals, holds the list of ids. A document is kept as the value
  it serialises, not as JSON text.
\<close>

record stored =
  doc :: PrintJob
  expirationTtl :: "nat option"

record KV =
  jobs :: "string \<rightharpoonup> stored"
  queue :: "string list option"

definition empty_kv :: KV where
  "empty_kv = \<lparr>jobs = Map.empty, queue = None\<rparr>"

text \<open>\<^verbatim>\<open>JSON.parse(await get('queue') || '[]')\<close>.\<close>

definition read_queue :: "KV \<Rightarrow> string list" where
  "read_queue kv = (case queue kv of None \<Rightarrow> [] | Some q \<Rightarrow> q)"

definition put_job :: "string \<Rightarrow> PrintJob \<Rightarrow> nat option \<Rightarrow> KV \<Rightarrow> KV" where
  "put_job orderId job ttl kv =
     kv\<lparr>jobs := (jobs kv)(orderId \<mapsto> \<lparr>doc = job, expirationTtl = ttl\<rparr>)\<rparr>"

definition put_queue :: "string list \<Rightarrow> KV \<Rightarrow> KV" where
  "put_queue q kv = kv\<lparr>queue := Some q\<rparr>"

datatype reply =
    PaymentRequired string
  | Paid nat
  | Success

text \<open>
  \<^verbatim>\<open>POST /api/order\<close>. The id (the first eight characters of a random UUID) and the
  clock are arguments; the reply keeps the order id of the 402 body.
\<close>

definition order_create ::
  "Math \<Rightarrow> string \<Rightarrow> string body \<Rightarrow> string \<Rightarrow> KV \<Rightarrow> (error + reply) \<times> KV" where
  "order_create m orderId b now kv =
    (case b of
       Unparsable \<Rightarrow> (Inl Thrown, kv)
     | Parsed None \<Rightarrow> (Inl Thrown, kv)
     | Parsed (Some p) \<Rightarrow>
         (let sh = parsePrompt p;
              stl = generateSTL m sh;
              job = \<lparr>job_id = orderId, prompt = p, shape = sh, stlData = stl,
                     status = pending_payment, paymentTxId = None, createdAt = now,
                     paidAt = None, printedAt = None\<rparr>
          in (Inr (PaymentRequired orderId), put_job orderId job (Some (86400 * 7)) kv)))"

text \<open>
  \<^verbatim>\<open>POST /api/order/:id/confirm\<close>. The body is read before the job is looked up;
  \<^verbatim>\<open>txId\<close> is absent when the body has none.
\<close>

definition order_confirm ::
  "string \<Rightarrow> string body \<Rightarrow> string \<Rightarrow> KV \<Rightarrow> (error + reply) \<times> KV" where
  "order_confirm orderId b now kv =
    (case b of
       Unparsable \<Rightarrow> (Inl Thrown, kv)
     | Parsed txId \<Rightarrow>
    (case jobs kv orderId of
       None \<Rightarrow> (Inl OrderNotFound, kv)
     | Some jobData \<Rightarrow>
         (let job = (doc jobData)\<lparr>status := paid, paymentTxId := txId, paidAt := Some now\<rparr>;
              kv1 = put_job orderId job None kv;
              q = read_queue kv1 @ [orderId];
              kv2 = put_queue q kv1
          in (Inr (Paid (length q)), kv2))))"

text \<open>\<^verbatim>\<open>POST /api/order/:id/printing\<close>.\<close>

definition order_printing :: "string \<Rightarrow> KV \<Rightarrow> (error + reply) \<times> KV" where
  "order_printing orderId kv =
    (case jobs kv orderId of
       None \<Rightarrow> (Inl OrderNotFound, kv)
     | Some jobData \<Rightarrow>
         (let job = (doc jobData)\<lparr>status := printing\<rparr>
          in (Inr Success, put_job orderId job None kv)))"

text \<open>\<^verbatim>\<open>POST /api/order/:id/complete\<close>.\<close>

definition order_complete :: "string \<Rightarrow> string \<Rightarrow> KV \<Rightarrow> (error + reply) \<times> KV" where
  "order_complete orderId now kv =
    (case jobs kv orderId of
       None \<Rightarrow> (Inl OrderNotFound, kv)
     | Some jobData \<Rightarrow>
         (let job = (doc jobData)\<lparr>status := completed, printedAt := Some now\<rparr>;
              kv1 = put_job orderId job None kv;
              newQueue = filter (\<lambda>i. i \<noteq> orderId) (read_queue kv1)
          in (Inr Success, put_queue newQueue kv1)))"

text \<open>Sequences of requests.\<close>

datatype request =
    Create string "string body" string
  | Confirm string "string body" string
  | Printing string
  | Complete string string

fun handle :: "Math \<Rightarrow> request \<Rightarrow> KV \<Rightarrow> (error + reply) \<times> KV" where
  "handle m (Create orderId b now) kv = order_create m orderId b now kv"
| "handle m (Confirm orderId b now) kv = order_confirm orderId b now kv"
| "handle m (Printing orderId) kv = order_printing orderId kv"
| "handle m (Complete orderId now) kv = order_complete orderId now kv"

fun run :: "Math \<Rightarrow> request list \<Rightarrow> KV \<Rightarrow> KV" where
  "run m [] kv = kv"
| "run m (r # rs) kv = run m rs (snd (handle m r kv))"

text \<open>The status of a stored job.\<close>

definition status_of :: "KV \<Rightarrow> string \<Rightarrow> status option" where
  "status_of kv i = map_option (\<lambda>e. status (doc e)) (jobs kv i)"

text \<open>
  A sequence of requests in which every order id is new when it is created.
\<close>

fun fresh_ids :: "Math \<Rightarrow> request list \<Rightarrow> KV \<Rightarrow> bool" where
  "fresh_ids m [] kv = True"
| "fresh_ids m (r # rs) kv =
     ((case r of Create i p t \<Rightarrow> jobs kv i = None | _ \<Rightarrow> True)
      \<and> fresh_ids m rs (snd (handle m r kv)))"

text \<open>
  A sequence of requests in which the caller has checked the status first: a job that
  exists is confirmed only while \<open>pending_payment\<close>, marked printing only while
  \<open>paid\<close>, and completed only while \<open>printing\<close>. The handlers make no such check.
\<close>

definition checked :: "request \<Rightarrow> KV \<Rightarrow> bool" where
  "checked r kv =
    (case r of
       Create i p t \<Rightarrow> True
     | Confirm i x t \<Rightarrow> status_of kv i \<in> {None, Some pending_payment}
     | Printing i \<Rightarrow> status_of kv i \<in> {None, Some paid}
     | Complete i t \<Rightarrow> status_of kv i \<in> {None, Some printing})"

fun all_checked :: "Math \<Rightarrow> request list \<Rightarrow> KV \<Rightarrow> bool" where
  "all_checked m [] kv = True"
| "all_checked m (r # rs) kv = (checked r kv \<and> all_checked m rs (snd (handle m r kv)))"

section \<open>Descriptions to compare the program with\<close>

text \<open>The number of triangles that \<^verbatim>\<open>generateSTL\<close> emits for each type.\<close>

fun kind_triangles :: "shape_type \<Rightarrow> nat" where
  "kind_triangles Cube = 12"
| "kind_triangles Cylinder = 96"
| "kind_triangles Sphere = 352"
| "kind_triangles Cone = 48"
| "kind_triangles Torus = 768"
| "kind_triangles Text = 0"
| "kind_triangles Custom = 0"

text \<open>
  The dimension a branch works with, in words: the default when the property is absent,
  is zero or is NaN; the property's own value otherwise, negative and infinite ones
  included.
\<close>

definition resolved :: "jsnum option \<Rightarrow> real \<Rightarrow> jsnum" where
  "resolved x d =
     (case x of None \<Rightarrow> Fin d
      | Some v \<Rightarrow> if v = Fin 0 \<or> v = NaN then Fin d else v)"

text \<open>
  Reading a mesh text back. A triangle is a facet: its normal and three corners, written
  as the seven lines \<^verbatim>\<open>facet normal\<close>, \<^verbatim>\<open>outer loop\<close>, three times \<^verbatim>\<open>vertex\<close>,
  \<^verbatim>\<open>endloop\<close>, \<^verbatim>\<open>endfacet\<close>. A text is a mesh when it opens with \<^verbatim>\<open>solid model\<close>,
  closes with \<^verbatim>\<open>endsolid model\<close> and holds whole facets and empty lines only between.
\<close>

datatype facet = Facet (normal: vec) (corner1: vec) (corner2: vec) (corner3: vec)

fun facets_of :: "stl_line list \<Rightarrow> facet list option" where
  "facets_of [] = Some []"
| "facets_of (EmptyLine # ls) = facets_of ls"
| "facets_of (FacetNormal n # OuterLoop # Vertex a # Vertex b # Vertex c # EndLoop # EndFacet # ls)
     = map_option ((#) (Facet n a b c)) (facets_of ls)"
| "facets_of ls = None"

definition read_stl :: "stl_line list \<Rightarrow> facet list option" where
  "read_stl ls =
     (case ls of
        SolidModel # rest \<Rightarrow>
          if rest \<noteq> [] \<and> last rest = EndSolidModel then facets_of (butlast rest) else None
      | _ \<Rightarrow> None)"

text \<open>
  Angles. Step \<open>i\<close> of \<open>n\<close> around a full circle is the angle \<open>2\<pi>i / n\<close>, and step
  \<open>i\<close> of \<open>n\<close> from pole to pole is \<open>\<pi>i / n\<close>, each computed in doubles as the
  quotient \<open>i / n\<close> times \<^verbatim>\<open>Math.PI\<close> (times 2).
\<close>

definition circle_step :: "nat \<Rightarrow> nat \<Rightarrow> jsnum" where
  "circle_step i n = jmul (jmul (jdiv (Fin (real i)) (Fin (real n))) math_pi) (Fin 2)"

definition pole_step :: "nat \<Rightarrow> nat \<Rightarrow> jsnum" where
  "pole_step i n = jmul (jdiv (Fin (real i)) (Fin (real n))) math_pi"

text \<open>
  The cylinder and the cone, cut into 24 segments. \<open>rim m r i y\<close> is the point of step
  \<open>i\<close> on the circle of radius \<open>r\<close> around the axis at the height \<open>y\<close>. A segment of
  the cylinder of half height \<open>h\<close> is the quad between the steps \<open>i\<close> and \<open>i + 1\<close> of
  the lower and the upper rim, split into two side triangles, with one triangle of the
  top cap and one of the bottom cap, each a fan from the centre of the cap.
\<close>

definition rim :: "Math \<Rightarrow> jsnum \<Rightarrow> nat \<Rightarrow> jsnum \<Rightarrow> vec" where
  "rim m r i y =
     (jmul (Math_cos m (circle_step i 24)) r, y, jmul (Math_sin m (circle_step i 24)) r)"

definition outward :: "Math \<Rightarrow> nat \<Rightarrow> jsnum \<Rightarrow> vec" where
  "outward m i y = (Math_cos m (circle_step i 24), y, Math_sin m (circle_step i 24))"

definition side_lower :: "Math \<Rightarrow> jsnum \<Rightarrow> jsnum \<Rightarrow> nat \<Rightarrow> facet" where
  "side_lower m r h i =
     Facet (outward m i (Fin 0)) (rim m r i (jneg h)) (rim m r (i + 1) (jneg h)) (rim m r (i + 1) h)"

definition side_upper :: "Math \<Rightarrow> jsnum \<Rightarrow> jsnum \<Rightarrow> nat \<Rightarrow> facet" where
  "side_upper m r h i =
     Facet (outward m i (Fin 0)) (rim m r i (jneg h)) (rim m r (i + 1) h) (rim m r i h)"

definition top_cap :: "Math \<Rightarrow> jsnum \<Rightarrow> jsnum \<Rightarrow> nat \<Rightarrow> facet" where
  "top_cap m r h i =
     Facet (Fin 0, Fin 1, Fin 0) (Fin 0, h, Fin 0) (rim m r i h) (rim m r (i + 1) h)"

definition bottom_cap :: "Math \<Rightarrow> jsnum \<Rightarrow> jsnum \<Rightarrow> nat \<Rightarrow> facet" where
  "bottom_cap m r h i =
     Facet (Fin 0, Fin (- 1), Fin 0) (Fin 0, jneg h, Fin 0)
           (rim m r (i + 1) (jneg h)) (rim m r i (jneg h))"

definition cylinder_facets :: "Math \<Rightarrow> jsnum \<Rightarrow> jsnum \<Rightarrow> nat \<Rightarrow> facet list" where
  "cylinder_facets m r h i =
     [side_lower m r h i, side_upper m r h i, top_cap m r h i, bottom_cap m r h i]"

text \<open>
  A segment of the cone of height \<open>h\<close>: one side triangle from the base edge between
  the steps \<open>i\<close> and \<open>i + 1\<close> to the apex, and one triangle of the base, a fan from the
  centre of the base.
\<close>

definition cone_side :: "Math \<Rightarrow> jsnum \<Rightarrow> jsnum \<Rightarrow> nat \<Rightarrow> facet" where
  "cone_side m r h i =
     Facet (outward m i (Fin (1 / 2))) (rim m r i (Fin 0)) (rim m r (i + 1) (Fin 0))
           (Fin 0, h, Fin 0)"

definition cone_base :: "Math \<Rightarrow> jsnum \<Rightarrow> nat \<Rightarrow> facet" where
  "cone_base m r i =
     Facet (Fin 0, Fin (- 1), Fin 0) (Fin 0, Fin 0, Fin 0)
           (rim m r (i + 1) (Fin 0)) (rim m r i (Fin 0))"

definition cone_facets :: "Math \<Rightarrow> jsnum \<Rightarrow> jsnum \<Rightarrow> nat \<Rightarrow> facet list" where
  "cone_facets m r h i = [cone_side m r h i, cone_base m r i]"

text \<open>
  The cube of half extents \<open>w\<close>, \<open>h\<close>, \<open>d\<close> around the origin. The normals of its
  triangles are two for each of the six faces, and a triangle lies on its face: every
  corner is a corner of the box, in the plane that the normal points out of.
\<close>

definition box_corner :: "jsnum \<Rightarrow> jsnum \<Rightarrow> jsnum \<Rightarrow> vec \<Rightarrow> bool" where
  "box_corner w h d p =
     (case p of (x, y, z) \<Rightarrow> x \<in> {w, jneg w} \<and> y \<in> {h, jneg h} \<and> z \<in> {d, jneg d})"

definition in_plane :: "jsnum \<Rightarrow> jsnum \<Rightarrow> jsnum \<Rightarrow> vec \<Rightarrow> vec \<Rightarrow> bool" where
  "in_plane w h d n p =
     (case (n, p) of ((nx, ny, nz), (x, y, z)) \<Rightarrow>
        (nx = Fin 1 \<longrightarrow> x = w) \<and> (nx = Fin (- 1) \<longrightarrow> x = jneg w)
      \<and> (ny = Fin 1 \<longrightarrow> y = h) \<and> (ny = Fin (- 1) \<longrightarrow> y = jneg h)
      \<and> (nz = Fin 1 \<longrightarrow> z = d) \<and> (nz = Fin (- 1) \<longrightarrow> z = jneg d))"

definition on_face :: "jsnum \<Rightarrow> jsnum \<Rightarrow> jsnum \<Rightarrow> facet \<Rightarrow> bool" where
  "on_face w h d f =
     (\<forall>p \<in> {corner1 f, corner2 f, corner3 f}.
        box_corner w h d p \<and> in_plane w h d (normal f) p)"

definition cube_normals :: "vec list" where
  "cube_normals =
     [(Fin 0, Fin (- 1), Fin 0), (Fin 0, Fin (- 1), Fin 0),
      (Fin 0, Fin 1, Fin 0), (Fin 0, Fin 1, Fin 0),
      (Fin 0, Fin 0, Fin 1), (Fin 0, Fin 0, Fin 1),
      (Fin 0, Fin 0, Fin (- 1)), (Fin 0, Fin 0, Fin (- 1)),
      (Fin 1, Fin 0, Fin 0), (Fin 1, Fin 0, Fin 0),
      (Fin (- 1), Fin 0, Fin 0), (Fin (- 1), Fin 0, Fin 0)]"

text \<open>
  The UV sphere of radius \<open>r\<close> with 12 rings from pole to pole and 16 segments around
  the axis. \<open>uv_point m r i j\<close> is the point of latitude step \<open>i\<close> and longitude step
  \<open>j\<close>, \<open>(r sin \<phi> cos \<theta>, r cos \<phi>, r sin \<phi> sin \<theta>)\<close>. The cell \<open>(i, j)\<close> lies between the
  steps \<open>i\<close>, \<open>i + 1\<close> and \<open>j\<close>, \<open>j + 1\<close>; in the first and in the last ring it is one
  triangle, elsewhere a quad split into two. The normal of a cell is its first corner
  divided by the radius.
\<close>

definition uv_point :: "Math \<Rightarrow> jsnum \<Rightarrow> nat \<Rightarrow> nat \<Rightarrow> vec" where
  "uv_point m r i j =
     (jmul (jmul (Math_sin m (pole_step i 12)) (Math_cos m (circle_step j 16))) r,
      jmul (Math_cos m (pole_step i 12)) r,
      jmul (jmul (Math_sin m (pole_step i 12)) (Math_sin m (circle_step j 16))) r)"

definition uv_normal :: "Math \<Rightarrow> jsnum \<Rightarrow> nat \<Rightarrow> nat \<Rightarrow> vec" where
  "uv_normal m r i j =
     (case uv_point m r i j of (x, y, z) \<Rightarrow> (jdiv x r, jdiv y r, jdiv z r))"

definition uv_cell :: "Math \<Rightarrow> jsnum \<Rightarrow> nat \<Rightarrow> nat \<Rightarrow> facet list" where
  "uv_cell m r i j =
     (if i = 0 then
        [Facet (uv_normal m r i j) (uv_point m r i j) (uv_point m r (i + 1) (j + 1))
               (uv_point m r (i + 1) j)]
      else if i = 11 then
        [Facet (uv_normal m r i j) (uv_point m r i j) (uv_point m r i (j + 1))
               (uv_point m r (i + 1) (j + 1))]
      else
        [Facet (uv_normal m r i j) (uv_point m r i j) (uv_point m r i (j + 1))
               (uv_point m r (i + 1) (j + 1)),
         Facet (uv_normal m r i j) (uv_point m r i j) (uv_point m r (i + 1) (j + 1))
               (uv_point m r (i + 1) j)])"

text \<open>
  The torus of major radius \<open>R\<close> and tube radius \<open>r\<close>: the surface point at the angle
  \<open>u\<close> around the major circle and \<open>v\<close> around the tube is
  \<open>((R + r cos v) cos u, r sin v, (R + r cos v) sin u)\<close>. The cell \<open>(i, j)\<close> of 16 steps
  around the major circle and 24 steps around the tube is the quad between the steps
  \<open>i\<close>, \<open>i + 1\<close> of \<open>u\<close> and \<open>j\<close>, \<open>j + 1\<close> of \<open>v\<close>, split into two triangles.
\<close>

definition torus_point :: "Math \<Rightarrow> jsnum \<Rightarrow> jsnum \<Rightarrow> jsnum \<Rightarrow> jsnum \<Rightarrow> vec" where
  "torus_point m R r u v =
     (jmul (jadd R (jmul r (Math_cos m v))) (Math_cos m u),
      jmul r (Math_sin m v),
      jmul (jadd R (jmul r (Math_cos m v))) (Math_sin m u))"

definition torus_quad :: "Math \<Rightarrow> jsnum \<Rightarrow> jsnum \<Rightarrow> nat \<Rightarrow> nat \<Rightarrow> facet list" where
  "torus_quad m R r i j =
     [Facet (Math_cos m (circle_step i 16), Fin 0, Math_sin m (circle_step i 16))
            (torus_point m R r (circle_step i 16) (circle_step j 24))
            (torus_point m R r (circle_step (i + 1) 16) (circle_step j 24))
            (torus_point m R r (circle_step (i + 1) 16) (circle_step (j + 1) 24)),
      Facet (Math_cos m (circle_step i 16), Fin 0, Math_sin m (circle_step i 16))
            (torus_point m R r (circle_step i 16) (circle_step j 24))
            (torus_point m R r (circle_step (i + 1) 16) (circle_step (j + 1) 24))
            (torus_point m R r (circle_step i 16) (circle_step (j + 1) 24))]"

text \<open>
  One \<^verbatim>\<open>Math\<close> that the language admits, for the examples: every function gives the
  double nearest to the exact value, and the two powers that occur are products.
\<close>

definition rounded :: "(real \<Rightarrow> real) \<Rightarrow> jsnum \<Rightarrow> jsnum" where
  "rounded f x = (case x of Fin a \<Rightarrow> round_double (f a) | _ \<Rightarrow> NaN)"

definition nearest_Math :: Math where
  "nearest_Math =
     \<lparr>Math_cos = rounded cos, Math_sin = rounded sin,
      Math_pow = (\<lambda>x y. if y = Fin 2 then jmul x x
                         else if y = Fin 3 then jmul (jmul x x) x else NaN)\<rparr>"




text \<open>The words a prompt is searched for, and the prompts without a dimension.\<close>

definition shape_keywords :: "string list" where
  "shape_keywords =
     [''sphere'', ''ball'', ''orb'', ''cylinder'', ''tube'', ''pipe'', ''rod'', ''cone'',
      ''pyramid'', ''donut'', ''torus'', ''ring'', ''cube'', ''box'', ''block'', ''square'']"

definition no_keyword :: "string \<Rightarrow> bool" where
  "no_keyword lower = (\<forall>w \<in> set shape_keywords. \<not> str_includes lower w)"

definition no_dimension :: "string \<Rightarrow> bool" where
  "no_dimension lower =
     (match_re dim_re lower = None \<and> match_re radius_re lower = None
      \<and> match_re size_re lower = None)"

text \<open>The two halves of the queue invariant.\<close>

definition queued_are_active :: "KV \<Rightarrow> bool" where
  "queued_are_active kv =
     (\<forall>i \<in> set (read_queue kv). status_of kv i \<in> {Some paid, Some printing})"

definition active_are_queued :: "KV \<Rightarrow> bool" where
  "active_are_queued kv =
     (\<forall>i. status_of kv i \<in> {Some paid, Some printing} \<longrightarrow> i \<in> set (read_queue kv))"

text \<open>
  The requests that write: a request whose handler throws on its body, or finds no job,
  leaves the store as it is.
\<close>

definition writes :: "request \<Rightarrow> KV \<Rightarrow> bool" where
  "writes r kv =
    (case r of
       Create i b t \<Rightarrow> (case b of Parsed (Some p) \<Rightarrow> True | _ \<Rightarrow> False)
     | Confirm i b t \<Rightarrow> b \<noteq> Unparsable \<and> jobs kv i \<noteq> None
     | Printing i \<Rightarrow> jobs kv i \<noteq> None
     | Complete i t \<Rightarrow> jobs kv i \<noteq> None)"

section \<open>Rounding to a double\<close>

lemma rne_bounds: "of_int \<lfloor>q\<rfloor> \<le> (of_int (rne q) :: real)" "rne q \<le> \<lfloor>q\<rfloor> + 1"
  by (auto simp: rne_def Let_def)

lemma rne_of_int: "rne (of_int n) = n"
  by (simp add: rne_def)

lemma rne_mono:
  assumes "q \<le> q'"
  shows "rne q \<le> rne q'"
proof (cases "\<lfloor>q\<rfloor> = \<lfloor>q'\<rfloor>")
  case True
  with assms show ?thesis
    by (auto simp: rne_def Let_def)
next
  case False
  with assms have "\<lfloor>q\<rfloor> < \<lfloor>q'\<rfloor>"
    using floor_mono [OF assms] by linarith
  moreover have "rne q \<le> \<lfloor>q\<rfloor> + 1"
    by (rule rne_bounds)
  moreover have "\<lfloor>q'\<rfloor> \<le> rne q'"
    using rne_bounds(1) [of q'] by linarith
  ultimately show ?thesis by linarith
qed

lemma ulp_pos: "0 < ulp x"
  by (simp add: ulp_def)


lemma binade_upper:
  assumes "0 < x"
  shows "x < 2 powr (of_int (binade x) + 1)"
proof -
  have "log 2 x < of_int \<lfloor>log 2 x\<rfloor> + 1"
    by linarith
  also have "\<dots> \<le> of_int (binade x) + 1"
    by (simp add: binade_def)
  finally have "log 2 x < of_int (binade x) + 1" .
  with assms show ?thesis
    by (simp add: less_powr_iff)
qed


lemma two_powr_52: "(2::real) powr 52 = 2 ^ 52" "(2::real) powr 53 = 2 ^ 53"
  by (simp_all add: powr_numeral flip: powr_realpow)

text \<open>The rounded value before the overflow test lies in the closed binade.\<close>

lemma rounded_upper:
  assumes "0 < x"
  shows "of_int (rne (x / ulp x)) * ulp x \<le> 2 powr (of_int (binade x) + 1)"
proof -
  have "x / ulp x < 2 powr (of_int (binade x) + 1) / ulp x"
    using binade_upper [OF assms] ulp_pos [of x] by (simp add: divide_strict_right_mono)
  also have "\<dots> = 2 powr 53"
    by (simp add: ulp_def flip: powr_diff)
  finally have "x / ulp x \<le> of_int (2 ^ 53)"
    by (simp add: two_powr_52)
  then have "rne (x / ulp x) \<le> 2 ^ 53"
    using rne_mono rne_of_int by metis
  then have "(of_int (rne (x / ulp x)) :: real) \<le> 2 powr 53"
    by (simp add: two_powr_52)
  then have "of_int (rne (x / ulp x)) * ulp x \<le> 2 powr 53 * ulp x"
    using ulp_pos [of x] by (simp add: mult_right_mono)
  also have "\<dots> = 2 powr (of_int (binade x) + 1)"
    unfolding ulp_def by (subst powr_add [symmetric]) (simp add: add.commute)
  finally show ?thesis .
qed








text \<open>The value of the rounding in a binade at or above 1.\<close>

lemma binade_eq:
  assumes "2 ^ k \<le> x" and "x < 2 ^ Suc k"
  shows "binade x = int k"
proof -
  have pos: "0 < x"
    using assms(1) by (smt (verit) zero_less_power)
  have "\<lfloor>log 2 x\<rfloor> = int k"
  proof (rule floor_unique)
    show "of_int (int k) \<le> log 2 x"
      using assms(1) pos by (simp add: le_log_iff powr_realpow)
    have "x < 2 powr (real k + 1)"
      using assms(2) by (simp add: powr_add powr_realpow)
    then show "log 2 x < of_int (int k) + 1"
      using pos by (simp add: log_less_iff)
  qed
  then show ?thesis
    by (simp add: binade_def)
qed

lemma round_pos_binade:
  assumes "2 ^ k \<le> x" and "x < 2 ^ Suc k" and "k \<le> 1022"
  shows "round_pos x = Fin (of_int (rne (x * 2 ^ 52 / 2 ^ k)) * 2 ^ k / 2 ^ 52)"
proof -
  have pos: "0 < x"
    using assms(1) by (smt (verit) zero_less_power)
  have u: "ulp x = 2 ^ k / 2 ^ 52"
    by (simp add: ulp_def binade_eq [OF assms(1,2)] powr_diff powr_realpow two_powr_52)
  have "of_int (rne (x / ulp x)) * ulp x \<le> 2 powr (of_int (binade x) + 1)"
    by (rule rounded_upper [OF pos])
  also have "\<dots> = 2 ^ Suc k"
    by (simp add: binade_eq [OF assms(1,2)] powr_add powr_realpow)
  also have "\<dots> < (2::real) ^ 1024"
    using assms(3) by (intro power_strict_increasing) simp_all
  finally have "\<not> 2 ^ 1024 \<le> of_int (rne (x / ulp x)) * ulp x"
    by simp
  then have "round_pos x = Fin (of_int (rne (x / ulp x)) * ulp x)"
    by (simp add: round_pos_def Let_def)
  then show ?thesis
    by (simp add: u)
qed

lemma round_double_0: "round_double 0 = Fin 0"
  by (simp add: round_double_def)

lemma round_double_1: "round_double 1 = Fin 1"
  using round_pos_binade [of 0 1] by (simp add: round_double_def rne_def)

lemma round_double_5: "round_double 5 = Fin 5" and round_double_m5: "round_double (- 5) = Fin (- 5)"
  using round_pos_binade [of 2 5] by (simp_all add: round_double_def rne_def)

lemma round_double_6: "round_double 6 = Fin 6"
  using round_pos_binade [of 2 6] by (simp add: round_double_def rne_def)

lemma round_double_3: "round_double 3 = Fin 3"
  using round_pos_binade [of 1 3] by (simp add: round_double_def rne_def)

lemma round_double_25: "round_double 25 = Fin 25"
  using round_pos_binade [of 4 25] by (simp add: round_double_def rne_def)

lemma round_double_35: "round_double 35 = Fin 35"
  using round_pos_binade [of 5 35] by (simp add: round_double_def rne_def)

lemma round_double_50: "round_double 50 = Fin 50"
  using round_pos_binade [of 5 50] by (simp add: round_double_def rne_def)



lemma round_double_40: "round_double 40 = Fin 40"
  using round_pos_binade [of 5 40] by (simp add: round_double_def rne_def)



lemmas round_double_values =
  round_double_0 round_double_1 round_double_3 round_double_5 round_double_m5 round_double_6
  round_double_25 round_double_35 round_double_40 round_double_50

lemma nearest_Math_0:
  "Math_cos nearest_Math (Fin 0) = Fin 1" "Math_sin nearest_Math (Fin 0) = Fin 0"
  by (simp_all add: nearest_Math_def rounded_def round_double_0 round_double_1)

lemma turn_0: "0 < n \<Longrightarrow> turn 0 n = Fin 0"
  by (simp add: turn_def math_pi_def round_double_0)

section \<open>Counting triangles\<close>

lemma triangle_count_append: "triangle_count (xs @ ys) = triangle_count xs + triangle_count ys"
  by (simp add: triangle_count_def)

lemma triangle_count_Nil: "triangle_count [] = 0"
  by (simp add: triangle_count_def)

lemma triangle_count_addTriangle: "triangle_count (addTriangle a b c n) = 1"
  by (simp add: triangle_count_def addTriangle_def)

lemma triangle_count_concat:
  "triangle_count (concat (map f xs)) = sum_list (map (\<lambda>x. triangle_count (f x)) xs)"
  by (induction xs) (simp_all add: triangle_count_append triangle_count_Nil)

lemma triangle_count_rows:
  "(\<And>x. triangle_count (f x) = k) \<Longrightarrow> triangle_count (concat (map f [0..<n])) = n * k"
  by (simp add: triangle_count_concat sum_list_triv)

lemma triangle_count_cube: "triangle_count (cube_triangles w h d) = 12"
  by (simp add: cube_triangles_def Let_def triangle_count_append triangle_count_addTriangle)

lemma triangle_count_cylinder_segment: "triangle_count (cylinder_segment m r h i) = 4"
  by (simp add: cylinder_segment_def Let_def triangle_count_append triangle_count_addTriangle)

lemma triangle_count_cylinder: "triangle_count (cylinder_triangles m r h) = 96"
  by (simp add: cylinder_triangles_def triangle_count_rows [OF triangle_count_cylinder_segment])

lemma triangle_count_cone_segment: "triangle_count (cone_segment m r h i) = 2"
  by (simp add: cone_segment_def Let_def triangle_count_append triangle_count_addTriangle)

lemma triangle_count_cone: "triangle_count (cone_triangles m r h) = 48"
  by (simp add: cone_triangles_def triangle_count_rows [OF triangle_count_cone_segment])

lemma triangle_count_torus_cell: "triangle_count (torus_cell m R r i j) = 2"
  by (simp add: torus_cell_def Let_def triangle_count_append triangle_count_addTriangle)

lemma triangle_count_torus: "triangle_count (torus_triangles m R r) = 768"
  by (simp add: torus_triangles_def triangle_count_rows [OF triangle_count_torus_cell]
      triangle_count_rows [where k = 48])

lemma triangle_count_sphere_cell:
  "triangle_count (sphere_cell m r i j) = (if 0 < i then 1 else 0) + (if i < 11 then 1 else 0)"
  by (simp add: sphere_cell_def Let_def triangle_count_append triangle_count_addTriangle
      triangle_count_Nil)

lemma triangle_count_sphere_ring:
  "triangle_count (concat (map (sphere_cell m r i) [0..<16])) =
     16 * ((if 0 < i then 1 else 0) + (if i < 11 then 1 else 0))"
  using triangle_count_rows [of "sphere_cell m r i" _ 16] triangle_count_sphere_cell [of m r i]
  by simp

lemma sphere_ring_sum:
  "sum_list (map (\<lambda>i. 16 * ((if 0 < i then 1 else 0) + (if i < 11 then 1 else 0))) [0..<12])
     = (352::nat)"
  by code_simp

lemma triangle_count_sphere: "triangle_count (sphere_triangles m r) = 352"
proof -
  have "triangle_count (sphere_triangles m r) =
      sum_list (map (\<lambda>i. triangle_count (concat (map (sphere_cell m r i) [0..<16]))) [0..<12])"
    by (simp only: sphere_triangles_def triangle_count_concat)
  also have "\<dots> = 352"
    by (simp only: triangle_count_sphere_ring sphere_ring_sum)
  finally show ?thesis .
qed

lemma triangle_count_frame:
  "triangle_count (SolidModel # join_lines ls @ [EndSolidModel]) = triangle_count ls"
  by (simp add: triangle_count_def join_lines_def)

lemma triangle_count_triangles: "triangle_count (triangles m sh) = kind_triangles (type sh)"
  by (cases "type sh")
     (simp_all add: triangles_def Let_def triangle_count_cube triangle_count_cylinder
        triangle_count_sphere triangle_count_cone triangle_count_torus triangle_count_Nil)

lemma triangle_count_generateSTL:
  "triangle_count (generateSTL m sh) = kind_triangles (type sh)"
  by (simp add: generateSTL_def triangle_count_frame triangle_count_triangles)

lemma dim_or_resolved: "dim_or x (Fin d) = resolved x d"
  by (cases x; cases "the x") (auto simp: resolved_def lor_def)

lemma upt16: "[0..<16] = 0 # [1..<16]"
  by (subst upt_conv_Cons) simp_all

lemma upt24: "[0..<24] = 0 # [1..<24]"
  by (subst upt_conv_Cons) simp_all

section \<open>Reading the mesh back\<close>

lemma facets_of_addTriangle:
  "facets_of (addTriangle a b c n @ ls) = map_option ((#) (Facet n a b c)) (facets_of ls)"
  by (simp add: addTriangle_def)

lemma facets_of_append:
  "facets_of xs = Some fs \<Longrightarrow> facets_of (xs @ ys) = map_option ((@) fs) (facets_of ys)"
proof (induction xs arbitrary: fs rule: facets_of.induct)
  case 1
  then show ?case by (simp add: option.map_ident)
next
  case (2 ls)
  then show ?case by simp
next
  case (3 n a b c ls)
  then show ?case
    by (auto simp: option.map_comp o_def)
qed simp_all

lemma facets_of_concat:
  "(\<And>x. x \<in> set xs \<Longrightarrow> facets_of (f x) = Some (g x)) \<Longrightarrow>
   facets_of (concat (map f xs)) = Some (concat (map g xs))"
  by (induction xs) (simp_all add: facets_of_append)

lemma read_stl_generateSTL: "read_stl (generateSTL m sh) = facets_of (triangles m sh)"
  by (simp add: read_stl_def generateSTL_def join_lines_def butlast_append)

lemma facets_of_cube:
  "map_option (map normal) (facets_of (cube_triangles w h d)) = Some cube_normals"
  by (simp add: cube_triangles_def Let_def addTriangle_def cube_normals_def)

lemma facets_of_cube_faces:
  "map_option (list_all (on_face w h d)) (facets_of (cube_triangles w h d)) = Some True"
  by (simp add: cube_triangles_def Let_def addTriangle_def on_face_def box_corner_def
      in_plane_def)

lemma length_facets_of_cube:
  "map_option length (facets_of (cube_triangles w h d)) = Some 12"
  by (simp add: cube_triangles_def Let_def addTriangle_def)

lemma facets_of_cylinder_segment:
  "facets_of (cylinder_segment m r h i) = Some (cylinder_facets m r h i)"
  by (simp add: cylinder_segment_def Let_def addTriangle_def cylinder_facets_def side_lower_def
      side_upper_def top_cap_def bottom_cap_def rim_def outward_def turn_def circle_step_def)

lemma facets_of_cone_segment:
  "facets_of (cone_segment m r h i) = Some (cone_facets m r h i)"
  by (simp add: cone_segment_def Let_def addTriangle_def cone_facets_def cone_side_def
      cone_base_def rim_def outward_def turn_def circle_step_def)

lemma facets_of_sphere_cell:
  "i < 12 \<Longrightarrow> facets_of (sphere_cell m r i j) = Some (uv_cell m r i j)"
  by (simp add: sphere_cell_def Let_def addTriangle_def uv_cell_def uv_point_def uv_normal_def
      turn_def half_turn_def circle_step_def pole_step_def)

lemma facets_of_torus_cell:
  "facets_of (torus_cell m R r i j) = Some (torus_quad m R r i j)"
  by (simp add: torus_cell_def Let_def addTriangle_def torus_quad_def torus_point_def
      getPoint_def turn_def circle_step_def)

lemma facets_of_sphere:
  "facets_of (sphere_triangles m r) =
     Some (concat (map (\<lambda>i. concat (map (uv_cell m r i) [0..<16])) [0..<12]))"
  unfolding sphere_triangles_def
  by (intro facets_of_concat) (simp add: facets_of_sphere_cell)

lemma facets_of_torus:
  "facets_of (torus_triangles m R r) =
     Some (concat (map (\<lambda>i. concat (map (torus_quad m R r i) [0..<24])) [0..<16]))"
  unfolding torus_triangles_def
  by (intro facets_of_concat) (simp add: facets_of_torus_cell)

lemma uv_cell_sum:
  "sum_list (map (\<lambda>i. 16 * (if i = 0 \<or> i = 11 then 1 else 2)) [0..<12]) = (352::nat)"
  by code_simp

lemma length_concat_rows:
  "(\<And>x. length (f x) = k) \<Longrightarrow> length (concat (map f [0..<n])) = n * k"
  by (simp add: length_concat o_def sum_list_triv)

lemma length_uv_cell: "length (uv_cell m r i j) = (if i = 0 \<or> i = 11 then 1 else 2)"
  by (simp add: uv_cell_def)

lemma length_uv_sphere:
  "length (concat (map (\<lambda>i. concat (map (uv_cell m r i) [0..<16])) [0..<12])) = 352"
proof -
  have "length (concat (map (\<lambda>i. concat (map (uv_cell m r i) [0..<16])) [0..<12])) =
      sum_list (map (\<lambda>i. length (concat (map (uv_cell m r i) [0..<16]))) [0..<12])"
    by (simp add: length_concat o_def)
  also have "\<dots> = sum_list (map (\<lambda>i. 16 * (if i = 0 \<or> i = 11 then 1 else 2)) [0..<12])"
    using length_concat_rows [of "uv_cell m r _" "if _ = 0 \<or> _ = 11 then 1 else 2" 16]
    by (simp add: length_uv_cell length_concat_rows)
  finally show ?thesis
    by (simp only: uv_cell_sum)
qed

lemma length_torus_quads:
  "length (concat (map (\<lambda>i. concat (map (torus_quad m R r i) [0..<24])) [0..<16])) = 768"
  by (simp add: length_concat_rows [where k = 48] length_concat_rows [where k = 2]
      torus_quad_def)

lemma read_stl_length:
  "map_option length (read_stl (generateSTL m sh)) = Some (kind_triangles (type sh))"
proof (cases "type sh")
  case Cube
  then show ?thesis
    by (simp add: read_stl_generateSTL triangles_def Let_def length_facets_of_cube)
next
  case Cylinder
  then show ?thesis
    by (simp add: read_stl_generateSTL triangles_def Let_def cylinder_triangles_def
        facets_of_concat facets_of_cylinder_segment length_concat_rows [where k = 4]
        cylinder_facets_def)
next
  case Sphere
  then show ?thesis
    by (simp add: read_stl_generateSTL triangles_def Let_def facets_of_sphere length_uv_sphere)
next
  case Cone
  then show ?thesis
    by (simp add: read_stl_generateSTL triangles_def Let_def cone_triangles_def
        facets_of_concat facets_of_cone_segment length_concat_rows [where k = 2]
        cone_facets_def)
next
  case Torus
  then show ?thesis
    by (simp add: read_stl_generateSTL triangles_def Let_def facets_of_torus length_torus_quads)
next
  case Text
  then show ?thesis
    by (simp add: read_stl_generateSTL triangles_def)
next
  case Custom
  then show ?thesis
    by (simp add: read_stl_generateSTL triangles_def)
qed

section \<open>The mesh builder\<close>

text \<open>
  C5. For every cube, \<^verbatim>\<open>generateSTL\<close> emits exactly 12 triangles, two for each of the
  six faces. For every cylinder it emits exactly 96: for each of the 24 segments two side
  triangles, one triangle of the top cap and one of the bottom cap. For every cone it
  emits exactly 48: for each of the 24 segments one side triangle and one triangle of the
  base. The dimensions and the functions of \<^verbatim>\<open>Math\<close> change the corners, never the
  make-up.
\<close>

theorem generateSTL_triangle_counts:
  "map_option (map normal)
       (read_stl (generateSTL m \<lparr>type = Cube, dimensions = dims, units = u\<rparr>))
     = Some cube_normals
   \<and> length cube_normals = 12
   \<and> map_option (list_all (on_face (jdiv (resolved (width dims) 50) (Fin 2))
                                    (jdiv (resolved (height dims) 50) (Fin 2))
                                    (jdiv (resolved (depth dims) 50) (Fin 2))))
       (read_stl (generateSTL m \<lparr>type = Cube, dimensions = dims, units = u\<rparr>))
     = Some True
   \<and> read_stl (generateSTL m \<lparr>type = Cylinder, dimensions = dims, units = u\<rparr>)
     = Some (concat (map (cylinder_facets m (resolved (radius dims) 25)
                            (jdiv (resolved (height dims) 50) (Fin 2))) [0..<24]))
   \<and> length (concat (map (cylinder_facets m (resolved (radius dims) 25)
                            (jdiv (resolved (height dims) 50) (Fin 2))) [0..<24])) = 96
   \<and> read_stl (generateSTL m \<lparr>type = Cone, dimensions = dims, units = u\<rparr>)
     = Some (concat (map (cone_facets m (resolved (radius dims) 25)
                            (resolved (height dims) 50)) [0..<24]))
   \<and> length (concat (map (cone_facets m (resolved (radius dims) 25)
                            (resolved (height dims) 50)) [0..<24])) = 48
   \<and> triangle_count (generateSTL m \<lparr>type = Cube, dimensions = dims, units = u\<rparr>) = 12
   \<and> triangle_count (generateSTL m \<lparr>type = Cylinder, dimensions = dims, units = u\<rparr>) = 96
   \<and> triangle_count (generateSTL m \<lparr>type = Cone, dimensions = dims, units = u\<rparr>) = 48"
proof (intro conjI)
  show "map_option (map normal)
       (read_stl (generateSTL m \<lparr>type = Cube, dimensions = dims, units = u\<rparr>))
     = Some cube_normals"
    by (simp add: read_stl_generateSTL triangles_def facets_of_cube)
  show "length cube_normals = 12"
    by (simp add: cube_normals_def)
  show "map_option (list_all (on_face (jdiv (resolved (width dims) 50) (Fin 2))
                                    (jdiv (resolved (height dims) 50) (Fin 2))
                                    (jdiv (resolved (depth dims) 50) (Fin 2))))
       (read_stl (generateSTL m \<lparr>type = Cube, dimensions = dims, units = u\<rparr>))
     = Some True"
    by (simp add: read_stl_generateSTL triangles_def dim_or_resolved facets_of_cube_faces)
  show "read_stl (generateSTL m \<lparr>type = Cylinder, dimensions = dims, units = u\<rparr>)
     = Some (concat (map (cylinder_facets m (resolved (radius dims) 25)
                            (jdiv (resolved (height dims) 50) (Fin 2))) [0..<24]))"
    by (simp add: read_stl_generateSTL triangles_def cylinder_triangles_def dim_or_resolved
        facets_of_concat facets_of_cylinder_segment)
  show "length (concat (map (cylinder_facets m (resolved (radius dims) 25)
                            (jdiv (resolved (height dims) 50) (Fin 2))) [0..<24])) = 96"
    by (simp add: length_concat_rows [where k = 4] cylinder_facets_def)
  show "read_stl (generateSTL m \<lparr>type = Cone, dimensions = dims, units = u\<rparr>)
     = Some (concat (map (cone_facets m (resolved (radius dims) 25)
                            (resolved (height dims) 50)) [0..<24]))"
    by (simp add: read_stl_generateSTL triangles_def cone_triangles_def dim_or_resolved
        facets_of_concat facets_of_cone_segment)
  show "length (concat (map (cone_facets m (resolved (radius dims) 25)
                            (resolved (height dims) 50)) [0..<24])) = 48"
    by (simp add: length_concat_rows [where k = 2] cone_facets_def)
qed (simp_all add: triangle_count_generateSTL)

theorem generateSTL_triangle_counts_witness:
  "map_option (map normal)
       (read_stl (generateSTL nearest_Math \<lparr>type = Cube,
          dimensions = no_dims\<lparr>width := Some (Fin 50), height := Some (Fin 50),
                               depth := Some (Fin 50)\<rparr>, units = MM\<rparr>)) = Some cube_normals
   \<and> map_option (list_all (on_face (Fin 25) (Fin 25) (Fin 25)))
       (read_stl (generateSTL nearest_Math \<lparr>type = Cube,
          dimensions = no_dims\<lparr>width := Some (Fin 50), height := Some (Fin 50),
                               depth := Some (Fin 50)\<rparr>, units = MM\<rparr>)) = Some True
   \<and> triangle_count
       (generateSTL nearest_Math \<lparr>type = Cube,
          dimensions = no_dims\<lparr>width := Some (Fin 50), height := Some (Fin 50),
                               depth := Some (Fin 50)\<rparr>, units = MM\<rparr>) = 12
   \<and> read_stl (generateSTL nearest_Math \<lparr>type = Cylinder,
          dimensions = no_dims\<lparr>radius := Some (Fin 25), height := Some (Fin 50)\<rparr>,
          units = MM\<rparr>)
     = Some (concat (map (cylinder_facets nearest_Math (Fin 25) (Fin 25)) [0..<24]))
   \<and> read_stl (generateSTL nearest_Math \<lparr>type = Cone,
          dimensions = no_dims\<lparr>radius := Some (Fin 25), height := Some (Fin 50)\<rparr>,
          units = MM\<rparr>)
     = Some (concat (map (cone_facets nearest_Math (Fin 25) (Fin 50)) [0..<24]))"
proof -
  have r: "resolved (Some (Fin 50)) 50 = Fin 50" "resolved (Some (Fin 25)) 25 = Fin 25"
      "jdiv (Fin 50) (Fin 2) = Fin 25"
    by (simp_all add: resolved_def round_double_25)
  have d: "width (no_dims\<lparr>width := Some (Fin 50), height := Some (Fin 50),
                            depth := Some (Fin 50)\<rparr>) = Some (Fin 50)"
      "height (no_dims\<lparr>width := Some (Fin 50), height := Some (Fin 50),
                            depth := Some (Fin 50)\<rparr>) = Some (Fin 50)"
      "depth (no_dims\<lparr>width := Some (Fin 50), height := Some (Fin 50),
                            depth := Some (Fin 50)\<rparr>) = Some (Fin 50)"
      "radius (no_dims\<lparr>radius := Some (Fin 25), height := Some (Fin 50)\<rparr>) = Some (Fin 25)"
      "height (no_dims\<lparr>radius := Some (Fin 25), height := Some (Fin 50)\<rparr>) = Some (Fin 50)"
    by simp_all
  from generateSTL_triangle_counts [where m = nearest_Math and u = MM
      and dims = "no_dims\<lparr>width := Some (Fin 50), height := Some (Fin 50),
                           depth := Some (Fin 50)\<rparr>"]
    generateSTL_triangle_counts [where m = nearest_Math and u = MM
      and dims = "no_dims\<lparr>radius := Some (Fin 25), height := Some (Fin 50)\<rparr>"]
  show ?thesis
    unfolding d r by blast
qed

text \<open>
  C3, as the claim words it, fails: \<^verbatim>\<open>generateSTL\<close> has no error result, and for the
  cylinder of radius \<open>-5\<close> it returns a mesh of 96 triangles whose first vertex lies at
  \<open>x = -5\<close>.
\<close>

theorem generateSTL_negative_radius_counterexample:
  "take 4 (generateSTL nearest_Math \<lparr>type = Cylinder,
             dimensions = no_dims\<lparr>radius := Some (Fin (- 5))\<rparr>, units = MM\<rparr>)
     = [SolidModel, FacetNormal (Fin 1, Fin 0, Fin 0), OuterLoop,
        Vertex (Fin (- 5), Fin (- 25), Fin 0)]
   \<and> triangle_count (generateSTL nearest_Math \<lparr>type = Cylinder,
             dimensions = no_dims\<lparr>radius := Some (Fin (- 5))\<rparr>, units = MM\<rparr>) = 96"
  by (simp add: triangle_count_generateSTL)
     (simp add: generateSTL_def triangles_def no_dims_def lor_def Let_def join_lines_def
        cylinder_triangles_def upt24 cylinder_segment_def addTriangle_def turn_0
        nearest_Math_0 round_double_values)

text \<open>
  C3, amended. \<^verbatim>\<open>generateSTL\<close> rejects nothing: for every shape, whatever its
  dimensions (absent, zero, negative, infinite or NaN), it returns a text that opens with
  \<^verbatim>\<open>solid model\<close>, closes with \<^verbatim>\<open>endsolid model\<close> and holds the number of triangles
  that the type alone fixes, every triangle written as a whole facet.
\<close>

theorem generateSTL_total:
  "hd (generateSTL m sh) = SolidModel \<and> last (generateSTL m sh) = EndSolidModel
   \<and> triangle_count (generateSTL m sh) = kind_triangles (type sh)
   \<and> map_option length (read_stl (generateSTL m sh)) = Some (kind_triangles (type sh))"
  by (simp add: triangle_count_generateSTL read_stl_length) (simp add: generateSTL_def)

text \<open>
  C4, as the claim words it, fails: for a shape of type \<^verbatim>\<open>text\<close> there is no fallback
  to a default shape, and the text returned has no triangle.
\<close>

theorem generateSTL_text_counterexample:
  "generateSTL nearest_Math
       \<lparr>type = Text, dimensions = no_dims\<lparr>text_dim := Some ''Jack''\<rparr>, units = MM\<rparr>
     = [SolidModel, EmptyLine, EndSolidModel]
   \<and> triangle_count (generateSTL nearest_Math \<lparr>type = Text,
        dimensions = no_dims\<lparr>text_dim := Some ''Jack''\<rparr>, units = MM\<rparr>) = 0"
  by (simp add: triangle_count_generateSTL) (simp add: generateSTL_def triangles_def join_lines_def)

text \<open>
  C4, amended. For every shape of type \<^verbatim>\<open>text\<close> or \<^verbatim>\<open>custom\<close>, \<^verbatim>\<open>generateSTL\<close>
  takes none of its five branches and returns the two framing lines around an empty
  line: a mesh of zero triangles.
\<close>

theorem generateSTL_unsupported_empty:
  "generateSTL m \<lparr>type = Text, dimensions = dims, units = u\<rparr>
     = [SolidModel, EmptyLine, EndSolidModel]
   \<and> generateSTL m \<lparr>type = Custom, dimensions = dims, units = u\<rparr>
     = [SolidModel, EmptyLine, EndSolidModel]"
  by (simp add: generateSTL_def triangles_def join_lines_def)

lemma torus_first_vertex:
  "generateSTL m \<lparr>type = Torus, dimensions = dims, units = u\<rparr> ! 3 =
     Vertex (getPoint m (dim_or (radius dims) (Fin 30))
                      (jdiv (dim_or (width dims) (Fin 10)) (Fin 2)) (Fin 0) (Fin 0))"
  by (simp add: generateSTL_def triangles_def Let_def join_lines_def torus_triangles_def
      upt16 upt24 torus_cell_def addTriangle_def turn_0)

text \<open>
  C7, as the claim words it, fails twice. A width that is present and zero is replaced
  by the default: the mesh is the one of the width 50. The defaults of the torus are a
  radius of 30 and a width of 10, not 25 and 50: the first vertex lies at \<open>x = 35\<close>,
  where 25 and 50 would put it at \<open>x = 50\<close>.
\<close>

theorem generateSTL_defaults_counterexample:
  "generateSTL nearest_Math
       \<lparr>type = Cube, dimensions = no_dims\<lparr>width := Some (Fin 0)\<rparr>, units = MM\<rparr>
     = generateSTL nearest_Math
         \<lparr>type = Cube, dimensions = no_dims\<lparr>width := Some (Fin 50)\<rparr>, units = MM\<rparr>
   \<and> generateSTL nearest_Math \<lparr>type = Torus, dimensions = no_dims, units = MM\<rparr>
     = generateSTL nearest_Math \<lparr>type = Torus,
         dimensions = no_dims\<lparr>radius := Some (Fin 30), width := Some (Fin 10)\<rparr>, units = MM\<rparr>
   \<and> generateSTL nearest_Math \<lparr>type = Torus, dimensions = no_dims, units = MM\<rparr>
     \<noteq> generateSTL nearest_Math \<lparr>type = Torus,
         dimensions = no_dims\<lparr>radius := Some (Fin 25), width := Some (Fin 50)\<rparr>, units = MM\<rparr>"
proof (intro conjI)
  show "generateSTL nearest_Math
       \<lparr>type = Cube, dimensions = no_dims\<lparr>width := Some (Fin 0)\<rparr>, units = MM\<rparr>
     = generateSTL nearest_Math
         \<lparr>type = Cube, dimensions = no_dims\<lparr>width := Some (Fin 50)\<rparr>, units = MM\<rparr>"
    by (simp add: generateSTL_def triangles_def no_dims_def lor_def)
  show "generateSTL nearest_Math \<lparr>type = Torus, dimensions = no_dims, units = MM\<rparr>
     = generateSTL nearest_Math \<lparr>type = Torus,
         dimensions = no_dims\<lparr>radius := Some (Fin 30), width := Some (Fin 10)\<rparr>, units = MM\<rparr>"
    by (simp add: generateSTL_def triangles_def no_dims_def lor_def)
  have a: "generateSTL nearest_Math \<lparr>type = Torus, dimensions = no_dims, units = MM\<rparr> ! 3
      = Vertex (Fin 35, Fin 0, Fin 0)"
    by (simp add: torus_first_vertex no_dims_def getPoint_def nearest_Math_0
        round_double_values)
  have b: "generateSTL nearest_Math \<lparr>type = Torus,
         dimensions = no_dims\<lparr>radius := Some (Fin 25), width := Some (Fin 50)\<rparr>, units = MM\<rparr> ! 3
      = Vertex (Fin 50, Fin 0, Fin 0)"
    by (simp add: torus_first_vertex no_dims_def getPoint_def lor_def nearest_Math_0
        round_double_values)
  show "generateSTL nearest_Math \<lparr>type = Torus, dimensions = no_dims, units = MM\<rparr>
     \<noteq> generateSTL nearest_Math \<lparr>type = Torus,
         dimensions = no_dims\<lparr>radius := Some (Fin 25), width := Some (Fin 50)\<rparr>, units = MM\<rparr>"
  proof
    assume "generateSTL nearest_Math \<lparr>type = Torus, dimensions = no_dims, units = MM\<rparr>
     = generateSTL nearest_Math \<lparr>type = Torus,
         dimensions = no_dims\<lparr>radius := Some (Fin 25), width := Some (Fin 50)\<rparr>, units = MM\<rparr>"
    with a b show False by simp
  qed
qed

text \<open>
  C7, amended. Each branch of \<^verbatim>\<open>generateSTL\<close> works with its dimensions resolved as
  follows: a dimension that is absent, zero or NaN gives way to the default, and any other
  value, negative or infinite too, is used as it is. The defaults are 50 for the width,
  height and depth of a cube and for the height of a cylinder or cone, 25 for the radius
  of a cylinder, sphere or cone, and 30 and 10 for the radius and the width of a torus.
\<close>

theorem generateSTL_defaults:
  "triangles m sh =
    (case type sh of
       Cube \<Rightarrow> cube_triangles (jdiv (resolved (width (dimensions sh)) 50) (Fin 2))
                 (jdiv (resolved (height (dimensions sh)) 50) (Fin 2))
                 (jdiv (resolved (depth (dimensions sh)) 50) (Fin 2))
     | Cylinder \<Rightarrow> cylinder_triangles m (resolved (radius (dimensions sh)) 25)
                 (jdiv (resolved (height (dimensions sh)) 50) (Fin 2))
     | Sphere \<Rightarrow> sphere_triangles m (resolved (radius (dimensions sh)) 25)
     | Cone \<Rightarrow> cone_triangles m (resolved (radius (dimensions sh)) 25)
                 (resolved (height (dimensions sh)) 50)
     | Torus \<Rightarrow> torus_triangles m (resolved (radius (dimensions sh)) 30)
                 (jdiv (resolved (width (dimensions sh)) 10) (Fin 2))
     | _ \<Rightarrow> [])"
  by (cases "type sh") (simp_all add: triangles_def Let_def dim_or_resolved)

text \<open>
  C8. For every sphere the mesh is the UV sphere of 12 rings and 16 segments: a cell of
  the first or of the last ring gives one triangle, a cell of the ten rings between
  gives two, and every corner is the point of the sphere at its latitude and longitude
  step. For every torus the mesh is laid out in 16 rings around the major circle of 24
  cells around the tube, each cell two triangles, and every corner is the surface point
  \<open>((R + r cos v) cos u, r sin v, (R + r cos v) sin u)\<close> at its two steps, where \<open>R\<close>
  is the radius of the shape and \<open>r\<close> is half its width: a radius or width that is
  present, neither zero nor NaN, is the one used.
\<close>

theorem sphere_torus_tessellation:
  "read_stl (generateSTL m \<lparr>type = Sphere, dimensions = dims, units = u\<rparr>)
     = Some (concat (map (\<lambda>i. concat (map (\<lambda>j. uv_cell m (resolved (radius dims) 25) i j)
                                           [0..<16])) [0..<12]))
   \<and> length (uv_cell m r i j) = (if i = 0 \<or> i = 11 then 1 else 2)
   \<and> read_stl (generateSTL m \<lparr>type = Torus, dimensions = dims, units = u\<rparr>)
     = Some (concat (map (\<lambda>i. concat (map (\<lambda>j. torus_quad m (resolved (radius dims) 30)
                                  (jdiv (resolved (width dims) 10) (Fin 2)) i j)
                                           [0..<24])) [0..<16]))
   \<and> length (torus_quad m R r i j) = 2
   \<and> (truthy x \<longrightarrow> resolved (Some x) d = x)
   \<and> triangle_count (generateSTL m \<lparr>type = Sphere, dimensions = dims, units = u\<rparr>) = 352
   \<and> triangle_count (generateSTL m \<lparr>type = Torus, dimensions = dims, units = u\<rparr>) = 768"
proof (intro conjI)
  show "read_stl (generateSTL m \<lparr>type = Sphere, dimensions = dims, units = u\<rparr>)
     = Some (concat (map (\<lambda>i. concat (map (\<lambda>j. uv_cell m (resolved (radius dims) 25) i j)
                                           [0..<16])) [0..<12]))"
    by (simp add: read_stl_generateSTL triangles_def dim_or_resolved facets_of_sphere)
  show "length (uv_cell m r i j) = (if i = 0 \<or> i = 11 then 1 else 2)"
    by (simp add: uv_cell_def)
  show "read_stl (generateSTL m \<lparr>type = Torus, dimensions = dims, units = u\<rparr>)
     = Some (concat (map (\<lambda>i. concat (map (\<lambda>j. torus_quad m (resolved (radius dims) 30)
                                  (jdiv (resolved (width dims) 10) (Fin 2)) i j)
                                           [0..<24])) [0..<16]))"
    by (simp add: read_stl_generateSTL triangles_def dim_or_resolved facets_of_torus)
  show "length (torus_quad m R r i j) = 2"
    by (simp add: torus_quad_def)
  show "truthy x \<longrightarrow> resolved (Some x) d = x"
    by (cases x) (simp_all add: resolved_def)
qed (simp_all add: triangle_count_generateSTL)

theorem sphere_torus_tessellation_witness:
  "truthy (Fin 40) \<and> resolved (Some (Fin 40)) 30 = Fin 40
   \<and> uv_point nearest_Math (Fin 40) 0 0 = (Fin 0, Fin 40, Fin 0)
   \<and> length (uv_cell nearest_Math (Fin 40) 0 3) = 1
   \<and> length (uv_cell nearest_Math (Fin 40) 11 15) = 1
   \<and> length (uv_cell nearest_Math (Fin 40) 5 0) = 2
   \<and> read_stl (generateSTL nearest_Math \<lparr>type = Torus,
        dimensions = no_dims\<lparr>radius := Some (Fin 40), width := Some (Fin 12)\<rparr>, units = MM\<rparr>)
     = Some (concat (map (\<lambda>i. concat (map (\<lambda>j. torus_quad nearest_Math (Fin 40) (Fin 6) i j)
                                           [0..<24])) [0..<16]))"
proof -
  have w: "resolved (Some (Fin 12)) 10 = Fin 12"
    by (simp add: resolved_def)
  have t: "truthy (Fin 40)"
    by simp
  have p: "uv_point nearest_Math (Fin 40) 0 0 = (Fin 0, Fin 40, Fin 0)"
    by (simp add: uv_point_def pole_step_def circle_step_def math_pi_def nearest_Math_0
        round_double_values)
  from t w p
    sphere_torus_tessellation [where m = nearest_Math and r = "Fin 40" and i = 0 and j = 3
      and x = "Fin 40" and d = 30
      and dims = "no_dims\<lparr>radius := Some (Fin 40), width := Some (Fin 12)\<rparr>" and u = MM]
    sphere_torus_tessellation [where m = nearest_Math and r = "Fin 40" and i = 11 and j = 15]
    sphere_torus_tessellation [where m = nearest_Math and r = "Fin 40" and i = 5 and j = 0]
  show ?thesis
    by (simp add: round_double_values)
qed

section \<open>The preview estimate\<close>












section \<open>The prompt parser\<close>

text \<open>
  C10. For every prompt, \<^verbatim>\<open>parsePrompt\<close> returns a shape whose type is one of cube,
  cylinder, sphere, cone and torus, never \<^verbatim>\<open>text\<close> or \<^verbatim>\<open>custom\<close>, in millimetres;
  the shape is the cube of width, height and depth 50 when the prompt holds no shape
  keyword and no dimension; and \<^verbatim>\<open>generateSTL\<close> on a parsed shape never takes the
  empty way out: the mesh has triangles.
\<close>

theorem parsePrompt_supported:
  "type (parsePrompt p) \<in> {Cube, Cylinder, Sphere, Cone, Torus}
   \<and> units (parsePrompt p) = MM
   \<and> (no_keyword (toLowerCase p) \<and> no_dimension (toLowerCase p) \<longrightarrow>
        parsePrompt p = \<lparr>type = Cube,
          dimensions = \<lparr>width = Some (Fin 50), height = Some (Fin 50), depth = Some (Fin 50),
                        radius = None, text_dim = None\<rparr>, units = MM\<rparr>)
   \<and> triangles m (parsePrompt p) \<noteq> []
   \<and> 0 < triangle_count (generateSTL m (parsePrompt p))"
proof -
  have t: "type (parsePrompt p) \<in> {Cube, Cylinder, Sphere, Cone, Torus}"
    by (simp add: parsePrompt_def Let_def split: prod.splits)
  have u: "units (parsePrompt p) = MM"
    by (simp add: parsePrompt_def Let_def split: prod.splits)
  have d: "no_keyword (toLowerCase p) \<and> no_dimension (toLowerCase p) \<longrightarrow>
        parsePrompt p = \<lparr>type = Cube,
          dimensions = \<lparr>width = Some (Fin 50), height = Some (Fin 50), depth = Some (Fin 50),
                        radius = None, text_dim = None\<rparr>, units = MM\<rparr>"
    by (simp add: parsePrompt_def Let_def no_keyword_def shape_keywords_def no_dimension_def
        parse_sizes_def no_dims_def)
  have c: "0 < triangle_count (generateSTL m (parsePrompt p))"
    using t by (auto simp: triangle_count_generateSTL)
  then have "0 < triangle_count (triangles m (parsePrompt p))"
    by (simp add: triangle_count_generateSTL triangle_count_triangles)
  then have n: "triangles m (parsePrompt p) \<noteq> []"
    by (auto simp: triangle_count_Nil)
  from t u d n c show ?thesis by blast
qed

theorem parsePrompt_supported_witness:
  "no_keyword (toLowerCase ''A Dragon'') \<and> no_dimension (toLowerCase ''A Dragon'')
   \<and> parsePrompt ''A Dragon'' = \<lparr>type = Cube,
          dimensions = \<lparr>width = Some (Fin 50), height = Some (Fin 50), depth = Some (Fin 50),
                        radius = None, text_dim = None\<rparr>, units = MM\<rparr>"
proof -
  have k: "no_keyword (toLowerCase ''A Dragon'')" by code_simp
  have n: "no_dimension (toLowerCase ''A Dragon'')" by code_simp
  from k n parsePrompt_supported [of "''A Dragon''"] show ?thesis by blast
qed

section \<open>The order handlers and the queue\<close>

lemma read_queue_put_job: "read_queue (put_job i j t kv) = read_queue kv"
  by (simp add: read_queue_def put_job_def)

lemma read_queue_put_queue: "read_queue (put_queue q kv) = q"
  by (simp add: read_queue_def put_queue_def)

lemma status_of_put_queue: "status_of (put_queue q kv) = status_of kv"
  by (rule ext) (simp add: status_of_def put_queue_def)

lemma status_of_put_job:
  "status_of (put_job i j t kv) k = (if k = i then Some (status j) else status_of kv k)"
  by (simp add: status_of_def put_job_def)

lemma status_of_None: "status_of kv i = None \<longleftrightarrow> jobs kv i = None"
  by (simp add: status_of_def)

text \<open>What a request does to the queue and to the statuses.\<close>

lemma queue_after:
  "read_queue (snd (handle m r kv)) =
    (if writes r kv then
       (case r of
          Confirm i b t \<Rightarrow> read_queue kv @ [i]
        | Complete i t \<Rightarrow> filter (\<lambda>k. k \<noteq> i) (read_queue kv)
        | _ \<Rightarrow> read_queue kv)
     else read_queue kv)"
  by (cases r)
     (auto simp: writes_def order_create_def order_confirm_def order_printing_def
        order_complete_def Let_def read_queue_put_job read_queue_put_queue
        split: option.splits body.splits)

lemma status_after:
  "status_of (snd (handle m r kv)) k =
    (case r of
       Create i b t \<Rightarrow> if k = i \<and> writes r kv then Some pending_payment else status_of kv k
     | Confirm i b t \<Rightarrow> if k = i \<and> writes r kv then Some paid else status_of kv k
     | Printing i \<Rightarrow> if k = i \<and> writes r kv then Some printing else status_of kv k
     | Complete i t \<Rightarrow> if k = i \<and> writes r kv then Some completed else status_of kv k)"
  by (cases r)
     (auto simp: writes_def order_create_def order_confirm_def order_printing_def
        order_complete_def Let_def status_of_put_job status_of_put_queue
        split: option.splits body.splits)

lemma step_queued_are_active:
  assumes "queued_are_active kv"
    and "case r of Create i b t \<Rightarrow> jobs kv i = None | _ \<Rightarrow> True"
  shows "queued_are_active (snd (handle m r kv))"
proof (cases r)
  case (Create i b t)
  with assms(2) have "status_of kv i = None"
    by (simp add: status_of_None)
  with assms(1) have "i \<notin> set (read_queue kv)"
    by (auto simp: queued_are_active_def)
  with assms(1) Create show ?thesis
    by (auto simp: queued_are_active_def queue_after status_after simp del: handle.simps)
next
  case (Confirm i b t)
  with assms(1) show ?thesis
    by (auto simp: queued_are_active_def queue_after status_after simp del: handle.simps)
next
  case (Printing i)
  with assms(1) show ?thesis
    by (auto simp: queued_are_active_def queue_after status_after simp del: handle.simps)
next
  case (Complete i t)
  with assms(1) show ?thesis
    by (auto simp: queued_are_active_def queue_after status_after simp del: handle.simps)
qed

lemma step_active_are_queued:
  assumes q: "queued_are_active kv" and a: "active_are_queued kv"
    and d: "distinct (read_queue kv)" and c: "checked r kv"
  shows "active_are_queued (snd (handle m r kv)) \<and> distinct (read_queue (snd (handle m r kv)))"
proof (cases r)
  case (Create i b t)
  with a d show ?thesis
    by (auto simp: active_are_queued_def queue_after status_after simp del: handle.simps)
next
  case (Confirm i b t)
  show ?thesis
  proof (cases "writes r kv")
    case False
    with a d Confirm show ?thesis
      by (auto simp: active_are_queued_def queue_after status_after simp del: handle.simps)
  next
    case True
    with c Confirm have "status_of kv i = Some pending_payment"
      by (auto simp: checked_def writes_def status_of_def)
    with q have "i \<notin> set (read_queue kv)"
      by (auto simp: queued_are_active_def)
    with a d Confirm True show ?thesis
      by (auto simp: active_are_queued_def queue_after status_after simp del: handle.simps)
  qed
next
  case (Printing i)
  with a d c show ?thesis
    by (auto simp: active_are_queued_def queue_after status_after checked_def writes_def
        status_of_None simp del: handle.simps)
next
  case (Complete i t)
  with a d show ?thesis
    by (auto simp: active_are_queued_def queue_after status_after simp del: handle.simps)
qed

lemma run_queued_are_active:
  "queued_are_active kv \<Longrightarrow> fresh_ids m rs kv \<Longrightarrow> queued_are_active (run m rs kv)"
proof (induction rs arbitrary: kv)
  case Nil
  then show ?case by simp
next
  case (Cons r rs)
  from Cons.prems have "queued_are_active (snd (handle m r kv))"
    by (intro step_queued_are_active) simp_all
  with Cons show ?case by simp
qed

lemma run_active_are_queued:
  "queued_are_active kv \<Longrightarrow> active_are_queued kv \<Longrightarrow> distinct (read_queue kv) \<Longrightarrow>
   fresh_ids m rs kv \<Longrightarrow> all_checked m rs kv \<Longrightarrow>
   active_are_queued (run m rs kv) \<and> distinct (read_queue (run m rs kv))"
proof (induction rs arbitrary: kv)
  case Nil
  then show ?case by simp
next
  case (Cons r rs)
  from Cons.prems have q: "queued_are_active (snd (handle m r kv))"
    by (intro step_queued_are_active) simp_all
  from Cons.prems
  have "active_are_queued (snd (handle m r kv)) \<and> distinct (read_queue (snd (handle m r kv)))"
    by (intro step_active_are_queued) simp_all
  with q Cons show ?case by simp
qed

lemma empty_kv_invariant:
  "queued_are_active empty_kv \<and> active_are_queued empty_kv \<and> distinct (read_queue empty_kv)"
  by (simp add: queued_are_active_def active_are_queued_def empty_kv_def read_queue_def
      status_of_def)

text \<open>
  C1, as the claim words it, fails: the handler of \<^verbatim>\<open>/api/order/:id/confirm\<close> does
  not look at the status. On a job that is already \<open>paid\<close> it answers with success,
  overwrites the transaction id and the payment time, and appends the id to the queue a
  second time.
\<close>

theorem confirm_paid_counterexample:
  "status_of (run nearest_Math [Create ''a1b2c3d4'' (Parsed (Some ''cube 50mm'')) ''t0'',
                   Confirm ''a1b2c3d4'' (Parsed (Some ''tx1'')) ''t1''] empty_kv) ''a1b2c3d4''
     = Some paid
   \<and> fst (order_confirm ''a1b2c3d4'' (Parsed (Some ''tx2'')) ''t2''
           (run nearest_Math [Create ''a1b2c3d4'' (Parsed (Some ''cube 50mm'')) ''t0'',
                 Confirm ''a1b2c3d4'' (Parsed (Some ''tx1'')) ''t1''] empty_kv)) = Inr (Paid 2)
   \<and> map_option (\<lambda>e. (paymentTxId (doc e), paidAt (doc e)))
       (jobs (run nearest_Math [Create ''a1b2c3d4'' (Parsed (Some ''cube 50mm'')) ''t0'',
                   Confirm ''a1b2c3d4'' (Parsed (Some ''tx1'')) ''t1''] empty_kv) ''a1b2c3d4'')
       = Some (Some ''tx1'', Some ''t1'')
   \<and> map_option (\<lambda>e. (paymentTxId (doc e), paidAt (doc e)))
       (jobs (snd (order_confirm ''a1b2c3d4'' (Parsed (Some ''tx2'')) ''t2''
           (run nearest_Math [Create ''a1b2c3d4'' (Parsed (Some ''cube 50mm'')) ''t0'',
                 Confirm ''a1b2c3d4'' (Parsed (Some ''tx1'')) ''t1''] empty_kv))) ''a1b2c3d4'')
       = Some (Some ''tx2'', Some ''t2'')
   \<and> read_queue (snd (order_confirm ''a1b2c3d4'' (Parsed (Some ''tx2'')) ''t2''
           (run nearest_Math [Create ''a1b2c3d4'' (Parsed (Some ''cube 50mm'')) ''t0'',
                 Confirm ''a1b2c3d4'' (Parsed (Some ''tx1'')) ''t1''] empty_kv)))
       = [''a1b2c3d4'', ''a1b2c3d4'']"
  by (simp add: empty_kv_def order_create_def order_confirm_def put_job_def put_queue_def
      read_queue_def Let_def status_of_def)

text \<open>
  C1, amended. For every job whose status is already \<open>paid\<close>, confirming the payment
  again with a body that can be read does not fail: the reply is a success with the new
  length of the queue as the position, the status stays \<open>paid\<close>, the transaction id
  and the payment time are overwritten with those of the new request, and the id is
  appended to the queue once more.
\<close>

theorem confirm_paid_again:
  assumes "jobs kv i = Some e" and "status (doc e) = paid"
  shows "fst (order_confirm i (Parsed tx) now kv) = Inr (Paid (Suc (length (read_queue kv))))
     \<and> map_option doc (jobs (snd (order_confirm i (Parsed tx) now kv)) i)
         = Some ((doc e)\<lparr>paymentTxId := tx, paidAt := Some now\<rparr>)
     \<and> read_queue (snd (order_confirm i (Parsed tx) now kv)) = read_queue kv @ [i]"
proof -
  from assms(2) have "(doc e)\<lparr>status := paid\<rparr> = doc e"
    by (cases "doc e") simp
  with assms(1) show ?thesis
    by (simp add: order_confirm_def Let_def put_job_def put_queue_def read_queue_def)
qed

theorem confirm_paid_again_witness:
  "jobs \<lparr>jobs = [''a1b2c3d4'' \<mapsto> \<lparr>doc = \<lparr>job_id = ''a1b2c3d4'', prompt = ''cube 50mm'',
              shape = parsePrompt ''cube 50mm'',
              stlData = generateSTL nearest_Math (parsePrompt ''cube 50mm''),
              status = paid, paymentTxId = Some ''tx1'', createdAt = ''t0'',
              paidAt = Some ''t1'', printedAt = None\<rparr>, expirationTtl = None\<rparr>],
         queue = Some [''a1b2c3d4'']\<rparr> ''a1b2c3d4''
     = Some \<lparr>doc = \<lparr>job_id = ''a1b2c3d4'', prompt = ''cube 50mm'',
              shape = parsePrompt ''cube 50mm'',
              stlData = generateSTL nearest_Math (parsePrompt ''cube 50mm''),
              status = paid, paymentTxId = Some ''tx1'', createdAt = ''t0'',
              paidAt = Some ''t1'', printedAt = None\<rparr>, expirationTtl = None\<rparr>
   \<and> fst (order_confirm ''a1b2c3d4'' (Parsed (Some ''tx2'')) ''t2''
       \<lparr>jobs = [''a1b2c3d4'' \<mapsto> \<lparr>doc = \<lparr>job_id = ''a1b2c3d4'', prompt = ''cube 50mm'',
              shape = parsePrompt ''cube 50mm'',
              stlData = generateSTL nearest_Math (parsePrompt ''cube 50mm''),
              status = paid, paymentTxId = Some ''tx1'', createdAt = ''t0'',
              paidAt = Some ''t1'', printedAt = None\<rparr>, expirationTtl = None\<rparr>],
         queue = Some [''a1b2c3d4'']\<rparr>) = Inr (Paid 2)
   \<and> read_queue (snd (order_confirm ''a1b2c3d4'' (Parsed (Some ''tx2'')) ''t2''
       \<lparr>jobs = [''a1b2c3d4'' \<mapsto> \<lparr>doc = \<lparr>job_id = ''a1b2c3d4'', prompt = ''cube 50mm'',
              shape = parsePrompt ''cube 50mm'',
              stlData = generateSTL nearest_Math (parsePrompt ''cube 50mm''),
              status = paid, paymentTxId = Some ''tx1'', createdAt = ''t0'',
              paidAt = Some ''t1'', printedAt = None\<rparr>, expirationTtl = None\<rparr>],
         queue = Some [''a1b2c3d4'']\<rparr>)) = [''a1b2c3d4'', ''a1b2c3d4'']"
  using confirm_paid_again [of
      "\<lparr>jobs = [''a1b2c3d4'' \<mapsto> \<lparr>doc = \<lparr>job_id = ''a1b2c3d4'', prompt = ''cube 50mm'',
              shape = parsePrompt ''cube 50mm'',
              stlData = generateSTL nearest_Math (parsePrompt ''cube 50mm''),
              status = paid, paymentTxId = Some ''tx1'', createdAt = ''t0'',
              paidAt = Some ''t1'', printedAt = None\<rparr>, expirationTtl = None\<rparr>],
         queue = Some [''a1b2c3d4'']\<rparr>"
      "''a1b2c3d4''"
      "\<lparr>doc = \<lparr>job_id = ''a1b2c3d4'', prompt = ''cube 50mm'',
              shape = parsePrompt ''cube 50mm'',
              stlData = generateSTL nearest_Math (parsePrompt ''cube 50mm''),
              status = paid, paymentTxId = Some ''tx1'', createdAt = ''t0'',
              paidAt = Some ''t1'', printedAt = None\<rparr>, expirationTtl = None\<rparr>"
      "Some ''tx2''" "''t2''"]
  by (simp add: read_queue_def)

text \<open>
  C2, as the claim words it, fails. Marking a job printing that was never paid leaves a
  \<open>printing\<close> job outside the queue, and confirming a payment twice puts the id in the
  queue twice.
\<close>

theorem queue_invariant_counterexample:
  "status_of (run nearest_Math [Create ''a1b2c3d4'' (Parsed (Some ''cube 50mm'')) ''t0'',
                                Printing ''a1b2c3d4''] empty_kv)
      ''a1b2c3d4'' = Some printing
   \<and> read_queue (run nearest_Math [Create ''a1b2c3d4'' (Parsed (Some ''cube 50mm'')) ''t0'',
                                   Printing ''a1b2c3d4''] empty_kv)
      = []
   \<and> read_queue (run nearest_Math [Create ''a1b2c3d4'' (Parsed (Some ''cube 50mm'')) ''t0'',
                       Confirm ''a1b2c3d4'' (Parsed (Some ''tx1'')) ''t1'',
                       Confirm ''a1b2c3d4'' (Parsed (Some ''tx1'')) ''t2''] empty_kv)
      = [''a1b2c3d4'', ''a1b2c3d4'']"
  by (simp add: empty_kv_def order_create_def order_confirm_def order_printing_def
      put_job_def put_queue_def read_queue_def Let_def status_of_def)

text \<open>
  C2, amended. After every sequence of create, confirm, printing and complete requests
  from the empty store in which every created id is new, every id in the queue belongs
  to a job whose status is \<open>paid\<close> or \<open>printing\<close>. If moreover every request comes
  in the status it is meant for (confirm on \<open>pending_payment\<close>, printing on \<open>paid\<close>,
  complete on \<open>printing\<close>), then every \<open>paid\<close> or \<open>printing\<close> job is in the queue
  and no id is in the queue twice. The program has no request that fails a job.
\<close>

theorem queue_invariant:
  assumes "fresh_ids m rs empty_kv"
  shows "queued_are_active (run m rs empty_kv)
     \<and> (all_checked m rs empty_kv \<longrightarrow>
          active_are_queued (run m rs empty_kv) \<and> distinct (read_queue (run m rs empty_kv)))"
  using assms run_queued_are_active [of empty_kv m rs] run_active_are_queued [of empty_kv m rs]
    empty_kv_invariant
  by blast

theorem queue_invariant_witness:
  "fresh_ids nearest_Math [Create ''a1b2c3d4'' (Parsed (Some ''cube 50mm'')) ''t0'',
              Confirm ''a1b2c3d4'' (Parsed (Some ''tx1'')) ''t1'', Printing ''a1b2c3d4'',
              Create ''e5f6a7b8'' (Parsed (Some ''a ball'')) ''t2'',
              Confirm ''e5f6a7b8'' (Parsed (Some ''tx2'')) ''t3'',
              Complete ''a1b2c3d4'' ''t4''] empty_kv
   \<and> all_checked nearest_Math [Create ''a1b2c3d4'' (Parsed (Some ''cube 50mm'')) ''t0'',
              Confirm ''a1b2c3d4'' (Parsed (Some ''tx1'')) ''t1'', Printing ''a1b2c3d4'',
              Create ''e5f6a7b8'' (Parsed (Some ''a ball'')) ''t2'',
              Confirm ''e5f6a7b8'' (Parsed (Some ''tx2'')) ''t3'',
              Complete ''a1b2c3d4'' ''t4''] empty_kv
   \<and> queued_are_active (run nearest_Math [Create ''a1b2c3d4'' (Parsed (Some ''cube 50mm'')) ''t0'',
              Confirm ''a1b2c3d4'' (Parsed (Some ''tx1'')) ''t1'', Printing ''a1b2c3d4'',
              Create ''e5f6a7b8'' (Parsed (Some ''a ball'')) ''t2'',
              Confirm ''e5f6a7b8'' (Parsed (Some ''tx2'')) ''t3'',
              Complete ''a1b2c3d4'' ''t4''] empty_kv)
   \<and> active_are_queued (run nearest_Math [Create ''a1b2c3d4'' (Parsed (Some ''cube 50mm'')) ''t0'',
              Confirm ''a1b2c3d4'' (Parsed (Some ''tx1'')) ''t1'', Printing ''a1b2c3d4'',
              Create ''e5f6a7b8'' (Parsed (Some ''a ball'')) ''t2'',
              Confirm ''e5f6a7b8'' (Parsed (Some ''tx2'')) ''t3'',
              Complete ''a1b2c3d4'' ''t4''] empty_kv)
   \<and> read_queue (run nearest_Math [Create ''a1b2c3d4'' (Parsed (Some ''cube 50mm'')) ''t0'',
              Confirm ''a1b2c3d4'' (Parsed (Some ''tx1'')) ''t1'', Printing ''a1b2c3d4'',
              Create ''e5f6a7b8'' (Parsed (Some ''a ball'')) ''t2'',
              Confirm ''e5f6a7b8'' (Parsed (Some ''tx2'')) ''t3'',
              Complete ''a1b2c3d4'' ''t4''] empty_kv) = [''e5f6a7b8'']"
proof -
  have f: "fresh_ids nearest_Math [Create ''a1b2c3d4'' (Parsed (Some ''cube 50mm'')) ''t0'',
              Confirm ''a1b2c3d4'' (Parsed (Some ''tx1'')) ''t1'', Printing ''a1b2c3d4'',
              Create ''e5f6a7b8'' (Parsed (Some ''a ball'')) ''t2'',
              Confirm ''e5f6a7b8'' (Parsed (Some ''tx2'')) ''t3'',
              Complete ''a1b2c3d4'' ''t4''] empty_kv"
    by (simp add: empty_kv_def order_create_def order_confirm_def order_printing_def
        order_complete_def put_job_def put_queue_def read_queue_def Let_def)
  have c: "all_checked nearest_Math [Create ''a1b2c3d4'' (Parsed (Some ''cube 50mm'')) ''t0'',
              Confirm ''a1b2c3d4'' (Parsed (Some ''tx1'')) ''t1'', Printing ''a1b2c3d4'',
              Create ''e5f6a7b8'' (Parsed (Some ''a ball'')) ''t2'',
              Confirm ''e5f6a7b8'' (Parsed (Some ''tx2'')) ''t3'',
              Complete ''a1b2c3d4'' ''t4''] empty_kv"
    by (simp add: empty_kv_def order_create_def order_confirm_def order_printing_def
        order_complete_def put_job_def put_queue_def read_queue_def Let_def checked_def
        status_of_def)
  have q: "read_queue (run nearest_Math [Create ''a1b2c3d4'' (Parsed (Some ''cube 50mm'')) ''t0'',
              Confirm ''a1b2c3d4'' (Parsed (Some ''tx1'')) ''t1'', Printing ''a1b2c3d4'',
              Create ''e5f6a7b8'' (Parsed (Some ''a ball'')) ''t2'',
              Confirm ''e5f6a7b8'' (Parsed (Some ''tx2'')) ''t3'',
              Complete ''a1b2c3d4'' ''t4''] empty_kv) = [''e5f6a7b8'']"
    by (simp add: empty_kv_def order_create_def order_confirm_def order_printing_def
        order_complete_def put_job_def put_queue_def read_queue_def Let_def)
  from f c q queue_invariant [OF f] show ?thesis by blast
qed

text \<open>
  C9. The document written when an order is created carries the expiry of seven days,
  \<open>604800\<close> seconds. The documents that the confirm, printing and complete handlers
  write over it carry none: from the confirmation on the job does not expire.
\<close>

theorem job_ttl_dropped:
  "map_option expirationTtl
     (jobs (run nearest_Math [Create ''a1b2c3d4'' (Parsed (Some ''cube 50mm'')) ''t0''] empty_kv)
        ''a1b2c3d4'')
     = Some (Some 604800)
   \<and> map_option expirationTtl
       (jobs (run nearest_Math [Create ''a1b2c3d4'' (Parsed (Some ''cube 50mm'')) ''t0'',
                   Confirm ''a1b2c3d4'' (Parsed (Some ''tx1'')) ''t1''] empty_kv) ''a1b2c3d4'')
     = Some None
   \<and> map_option expirationTtl
       (jobs (run nearest_Math [Create ''a1b2c3d4'' (Parsed (Some ''cube 50mm'')) ''t0'',
                   Printing ''a1b2c3d4''] empty_kv) ''a1b2c3d4'')
     = Some None
   \<and> map_option expirationTtl
       (jobs (run nearest_Math [Create ''a1b2c3d4'' (Parsed (Some ''cube 50mm'')) ''t0'',
                   Complete ''a1b2c3d4'' ''t1''] empty_kv) ''a1b2c3d4'')
     = Some None"
  by (simp add: empty_kv_def order_create_def order_confirm_def order_printing_def
      order_complete_def put_job_def put_queue_def read_queue_def Let_def)

end
